theory Spec2Isabelle
  imports Main "HOL-Library.AList"
begin

section \<open>Python values\<close>

text \<open>
  The client is dynamically typed: parameters, payloads and decoded JSON bodies are
  Python objects. \<open>pyval\<close> holds the objects the request layer handles: \<open>None\<close>,
  \<open>bool\<close>, \<open>int\<close> (unbounded), \<open>str\<close>, \<open>list\<close> and \<open>dict\<close> with string keys.
  A dict is an association list in insertion order with distinct keys, as Python
  dicts keep it. Strings are over the code points 0..255. Floating point is outside
  the model: JSON numbers are integers here (the exchange sends decimals as strings),
  and the one place that builds floats, \<open>_baseKlines\<close>, takes the builtin \<open>float\<close>
  as a parameter.
\<close>

datatype pyval =
    PNone
  | PBool bool
  | PInt int
  | PStr string
  | PList "pyval list"
  | PDict "(string \<times> pyval) list"

type_synonym pydict = "(string \<times> pyval) list"

text \<open>The exceptions the modelled code can raise, and the two request failures.\<close>

datatype error =
    TypeError
  | KeyError
  | IndexError
  | ValueError
  | AttributeError
  | TransportError
  | DecodeError

text \<open>\<open>bool(v)\<close>, as \<open>if v:\<close> and \<open>v or w\<close> evaluate it.\<close>

fun truthy :: "pyval \<Rightarrow> bool" where
  "truthy PNone = False"
| "truthy (PBool b) = b"
| "truthy (PInt i) = (i \<noteq> 0)"
| "truthy (PStr s) = (s \<noteq> [])"
| "truthy (PList xs) = (xs \<noteq> [])"
| "truthy (PDict d) = (d \<noteq> [])"

text \<open>\<open>len(v)\<close> for the objects that have \<open>__len__\<close>; \<open>None\<close> where \<open>hasattr(v, "__len__")\<close> is false.\<close>

fun py_len :: "pyval \<Rightarrow> nat option" where
  "py_len (PStr s) = Some (length s)"
| "py_len (PList xs) = Some (length xs)"
| "py_len (PDict d) = Some (length d)"
| "py_len PNone = None"
| "py_len (PBool b) = None"
| "py_len (PInt i) = None"

text \<open>Iteration (\<open>for x in v\<close>, \<open>list.extend(v)\<close>): a dict yields its keys, a string its characters.\<close>

fun py_iter :: "pyval \<Rightarrow> error + pyval list" where
  "py_iter (PList xs) = Inr xs"
| "py_iter (PDict d) = Inr (map (\<lambda>kv. PStr (fst kv)) d)"
| "py_iter (PStr s) = Inr (map (\<lambda>c. PStr [c]) s)"
| "py_iter PNone = Inl TypeError"
| "py_iter (PBool b) = Inl TypeError"
| "py_iter (PInt i) = Inl TypeError"

text \<open>An object used as an integer (\<open>bool\<close> is a subclass of \<open>int\<close>).\<close>

fun as_int :: "pyval \<Rightarrow> int option" where
  "as_int (PInt i) = Some i"
| "as_int (PBool b) = Some (if b then 1 else 0)"
| "as_int PNone = None"
| "as_int (PStr s) = None"
| "as_int (PList xs) = None"
| "as_int (PDict d) = None"

text \<open>\<open>v[key]\<close> with a string key.\<close>

fun py_getitem :: "pyval \<Rightarrow> string \<Rightarrow> error + pyval" where
  "py_getitem (PDict d) k = (case map_of d k of None \<Rightarrow> Inl KeyError | Some v \<Rightarrow> Inr v)"
| "py_getitem PNone k = Inl TypeError"
| "py_getitem (PBool b) k = Inl TypeError"
| "py_getitem (PInt i) k = Inl TypeError"
| "py_getitem (PStr s) k = Inl TypeError"
| "py_getitem (PList xs) k = Inl TypeError"

text \<open>\<open>v[-1]\<close>: the last element of a sequence. A dict has no key \<open>-1\<close> (its keys are strings).\<close>

fun py_last :: "pyval \<Rightarrow> error + pyval" where
  "py_last (PList xs) = (if xs = [] then Inl IndexError else Inr (last xs))"
| "py_last (PStr s) = (if s = [] then Inl IndexError else Inr (PStr [last s]))"
| "py_last (PDict d) = Inl KeyError"
| "py_last PNone = Inl TypeError"
| "py_last (PBool b) = Inl TypeError"
| "py_last (PInt i) = Inl TypeError"

text \<open>\<open>range(start, stop, step)\<close> as the list it yields; a zero step raises \<open>ValueError\<close>.\<close>

definition range_len :: "int \<Rightarrow> int \<Rightarrow> int \<Rightarrow> nat" where
  "range_len start stop step =
     (if 0 < step then (if start < stop then nat ((stop - start - 1) div step + 1) else 0)
      else if step < 0 then (if stop < start then nat ((start - stop - 1) div (- step) + 1) else 0)
      else 0)"

definition py_range :: "int \<Rightarrow> int \<Rightarrow> int \<Rightarrow> error + int list" where
  "py_range start stop step =
     (if step = 0 then Inl ValueError
      else Inr (map (\<lambda>i. start + int i * step) [0..<range_len start stop step]))"

subsection \<open>\<open>str(int)\<close> and \<open>json.dumps\<close>\<close>

text \<open>The character of a digit below 16, lower case as Python prints hexadecimal.\<close>

definition digit_char :: "nat \<Rightarrow> char" where
  "digit_char n = ''0123456789abcdef'' ! (n mod 16)"

fun digits :: "nat \<Rightarrow> string" where
  "digits n = (if n < 10 then [digit_char n] else digits (n div 10) @ [digit_char (n mod 10)])"

declare digits.simps [simp del]

definition str_int :: "int \<Rightarrow> string" where
  "str_int i = (if i < 0 then CHR ''-'' # digits (nat (- i)) else digits (nat i))"

text \<open>
  \<open>json.dumps\<close> escapes, with \<open>ensure_ascii\<close> on: the quote and the backslash, the five
  short escapes, and \<open>\u00XX\<close> for every other character outside space..tilde.
\<close>

definition json_escape :: "char \<Rightarrow> string" where
  "json_escape c =
     (let n = (of_char c :: nat) in
      if n = 0x22 then [CHR 0x5C, CHR 0x22]
      else if n = 0x5C then [CHR 0x5C, CHR 0x5C]
      else if n = 0x08 then [CHR 0x5C, CHR ''b'']
      else if n = 0x0C then [CHR 0x5C, CHR ''f'']
      else if n = 0x0A then [CHR 0x5C, CHR ''n'']
      else if n = 0x0D then [CHR 0x5C, CHR ''r'']
      else if n = 0x09 then [CHR 0x5C, CHR ''t'']
      else if n < 0x20 \<or> 0x7E < n
        then [CHR 0x5C, CHR ''u'', CHR ''0'', CHR ''0'', digit_char (n div 16), digit_char (n mod 16)]
      else [c])"

definition json_string :: "string \<Rightarrow> string" where
  "json_string s = CHR 0x22 # concat (map json_escape s) @ [CHR 0x22]"

text \<open>\<open>json.dumps(v, separators=(",", ":"))\<close>: no space after the separators.\<close>

fun json_dumps :: "pyval \<Rightarrow> string"
  and json_items :: "pyval list \<Rightarrow> string"
  and json_pairs :: "(string \<times> pyval) list \<Rightarrow> string"
where
  "json_dumps PNone = ''null''"
| "json_dumps (PBool b) = (if b then ''true'' else ''false'')"
| "json_dumps (PInt i) = str_int i"
| "json_dumps (PStr s) = json_string s"
| "json_dumps (PList xs) = ''['' @ json_items xs @ '']''"
| "json_dumps (PDict d) = ''{'' @ json_pairs d @ ''}''"
| "json_items [] = []"
| "json_items [x] = json_dumps x"
| "json_items (x # y # ys) = json_dumps x @ '','' @ json_items (y # ys)"
| "json_pairs [] = []"
| "json_pairs [kv] = json_string (fst kv) @ '':'' @ json_dumps (snd kv)"
| "json_pairs (kv # kv' # kvs) =
     json_string (fst kv) @ '':'' @ json_dumps (snd kv) @ '','' @ json_pairs (kv' # kvs)"

section \<open>Endpoints\<close>

datatype HTTPMethod = GET | POST

text \<open>
  \<open>EndpointSecurity\<close> is a \<open>Flag\<close>; \<open>SIGNED = TRADE | USER_DATA\<close>, and
  \<open>security in EndpointSecurity.SIGNED\<close> holds for \<open>TRADE\<close>, \<open>USER_DATA\<close> and
  \<open>SIGNED\<close> itself (\<open>NONE\<close> is the flag of value 1, not the empty flag).
\<close>

datatype EndpointSecurity = NONE | TRADE | USER_DATA | USER_STREAM | SIGNED

fun in_SIGNED :: "EndpointSecurity \<Rightarrow> bool" where
  "in_SIGNED TRADE = True"
| "in_SIGNED USER_DATA = True"
| "in_SIGNED SIGNED = True"
| "in_SIGNED NONE = False"
| "in_SIGNED USER_STREAM = False"

datatype LimitType = IP | UID | IP_SEC

record BaseEndpoint =
  URL :: string
  METHOD :: HTTPMethod
  SECURITY :: EndpointSecurity
  WEIGHT :: int
  LIMIT_TYPE :: LimitType

datatype Endpoints =
    COINS | USER_ASSETS | ACCOUNT_SNAPSHOT | DIVIDEND | DUSTLOG | WITHDRAW_HISTORY
  | DEPOSIT_HISTORY | FIAT_ORDERS | REBATE | CONVERT_HISTORY | AUTOINVEST_SUB
  | SE_FLEX_REWARDS | SPOT_TRADES | EXCHANGE_INFO | KLINES

fun endpoint_value :: "Endpoints \<Rightarrow> BaseEndpoint" where
  "endpoint_value COINS = \<lparr>URL = ''/sapi/v1/capital/config/getall'', METHOD = GET,
     SECURITY = USER_DATA, WEIGHT = 10, LIMIT_TYPE = IP\<rparr>"
| "endpoint_value USER_ASSETS = \<lparr>URL = ''/sapi/v3/asset/getUserAsset'', METHOD = POST,
     SECURITY = USER_DATA, WEIGHT = 5, LIMIT_TYPE = IP\<rparr>"
| "endpoint_value ACCOUNT_SNAPSHOT = \<lparr>URL = ''/sapi/v1/accountSnapshot'', METHOD = GET,
     SECURITY = USER_DATA, WEIGHT = 2400, LIMIT_TYPE = IP\<rparr>"
| "endpoint_value DIVIDEND = \<lparr>URL = ''/sapi/v1/asset/assetDividend'', METHOD = GET,
     SECURITY = USER_DATA, WEIGHT = 10, LIMIT_TYPE = IP\<rparr>"
| "endpoint_value DUSTLOG = \<lparr>URL = ''/sapi/v1/asset/dribblet'', METHOD = GET,
     SECURITY = USER_DATA, WEIGHT = 1, LIMIT_TYPE = IP\<rparr>"
| "endpoint_value WITHDRAW_HISTORY = \<lparr>URL = ''/sapi/v1/capital/withdraw/history'', METHOD = GET,
     SECURITY = USER_DATA, WEIGHT = 18000, LIMIT_TYPE = IP_SEC\<rparr>"
| "endpoint_value DEPOSIT_HISTORY = \<lparr>URL = ''/sapi/v1/capital/deposit/hisrec'', METHOD = GET,
     SECURITY = USER_DATA, WEIGHT = 1, LIMIT_TYPE = IP\<rparr>"
| "endpoint_value FIAT_ORDERS = \<lparr>URL = ''/sapi/v1/fiat/orders'', METHOD = GET,
     SECURITY = USER_DATA, WEIGHT = 90000, LIMIT_TYPE = UID\<rparr>"
| "endpoint_value REBATE = \<lparr>URL = ''/sapi/v1/rebate/taxQuery'', METHOD = GET,
     SECURITY = USER_DATA, WEIGHT = 12000, LIMIT_TYPE = UID\<rparr>"
| "endpoint_value CONVERT_HISTORY = \<lparr>URL = ''/sapi/v1/convert/tradeFlow'', METHOD = GET,
     SECURITY = USER_DATA, WEIGHT = 3000, LIMIT_TYPE = UID\<rparr>"
| "endpoint_value AUTOINVEST_SUB = \<lparr>URL = ''/sapi/v1/lending/auto-invest/history/list'', METHOD = GET,
     SECURITY = USER_DATA, WEIGHT = 1, LIMIT_TYPE = IP\<rparr>"
| "endpoint_value SE_FLEX_REWARDS = \<lparr>URL = ''/sapi/v1/simple-earn/flexible/history/rewardsRecord'',
     METHOD = GET, SECURITY = USER_DATA, WEIGHT = 150, LIMIT_TYPE = IP\<rparr>"
| "endpoint_value SPOT_TRADES = \<lparr>URL = ''/api/v3/myTrades'', METHOD = GET,
     SECURITY = USER_DATA, WEIGHT = 20, LIMIT_TYPE = IP\<rparr>"
| "endpoint_value EXCHANGE_INFO = \<lparr>URL = ''/api/v3/exchangeInfo'', METHOD = GET,
     SECURITY = NONE, WEIGHT = 20, LIMIT_TYPE = IP\<rparr>"
| "endpoint_value KLINES = \<lparr>URL = ''/api/v3/klines'', METHOD = GET,
     SECURITY = NONE, WEIGHT = 2, LIMIT_TYPE = IP\<rparr>"

section \<open>The world outside the client\<close>

text \<open>
  A request as the session sends it, and what comes back: no response at all (a
  connection or TLS failure), or a status code with a body that \<open>resp.json()\<close>
  decodes (\<open>Some\<close>) or rejects (\<open>None\<close>).
\<close>

record request =
  rq_method :: HTTPMethod
  rq_url :: string
  rq_params :: pydict

datatype response = ConnectionFailed | Response int "pyval option"

text \<open>
  The collaborators are parameters. The server answers a request knowing every request
  sent before it, so it may keep any state; the clock is read when the payload is
  built. \<open>SECRET\<close> is the API secret (\<open>None\<close> when the client was built without one),
  \<open>hmac_sha256\<close> and \<open>urlencode\<close> are the library functions \<open>_sign\<close> calls.
\<close>

record env =
  SECRET :: "string option"
  hmac_sha256 :: "string \<Rightarrow> string \<Rightarrow> string"
  urlencode :: "pydict \<Rightarrow> string"
  clock :: "request list \<Rightarrow> int"
  server :: "request list \<Rightarrow> request \<Rightarrow> response"

text \<open>
  The state a call threads: the dict objects it has allocated (address = index) and
  the requests sent so far, oldest first. The store is explicit because the fan-out
  methods hand one dict object to several tasks and keep mutating it.
\<close>

record state =
  heap :: "pydict list"
  sent :: "request list"

type_synonym 'a coroutine = "state \<Rightarrow> (error + 'a) \<times> state"

definition alloc :: "pydict \<Rightarrow> state \<Rightarrow> nat \<times> state" where
  "alloc d st = (length (heap st), st\<lparr>heap := heap st @ [d]\<rparr>)"

definition deref :: "state \<Rightarrow> nat \<Rightarrow> pydict" where
  "deref st a = (if a < length (heap st) then heap st ! a else [])"

definition heap_set :: "nat \<Rightarrow> string \<Rightarrow> pyval \<Rightarrow> state \<Rightarrow> state" where
  "heap_set a k v st = st\<lparr>heap := (heap st)[a := AList.update k v (deref st a)]\<rparr>"

section \<open>Building the payload\<close>

text \<open>
  \<^verbatim>\<open>
    for k, v in params.items():
        if v is None or (hasattr(v, "__len__") and len(v) == 0): continue
        if isinstance(v, bool):   payload[k] = str(v).lower()
        elif isinstance(v, list): payload[k] = json.dumps(v, separators=(",", ":"))
        else:                     payload[k] = v
  \<close>
\<close>

definition skipped :: "pyval \<Rightarrow> bool" where
  "skipped v = (v = PNone \<or> py_len v = Some 0)"

fun prepared :: "pyval \<Rightarrow> pyval" where
  "prepared (PBool b) = PStr (if b then ''true'' else ''false'')"
| "prepared (PList xs) = PStr (json_dumps (PList xs))"
| "prepared PNone = PNone"
| "prepared (PInt i) = PInt i"
| "prepared (PStr s) = PStr s"
| "prepared (PDict d) = PDict d"

fun prepare_loop :: "pydict \<Rightarrow> pydict \<Rightarrow> pydict" where
  "prepare_loop payload [] = payload"
| "prepare_loop payload (kv # kvs) =
     (if skipped (snd kv) then prepare_loop payload kvs
      else prepare_loop (AList.update (fst kv) (prepared (snd kv)) payload) kvs)"

text \<open>\<open>_sign\<close>: \<open>_encrypt(urlencode(params))\<close>; \<open>bytes(None, "utf-8")\<close> raises \<open>TypeError\<close>.\<close>

definition sign :: "env \<Rightarrow> pydict \<Rightarrow> error + string" where
  "sign e params =
     (case SECRET e of
        None \<Rightarrow> Inl TypeError
      | Some key \<Rightarrow> Inr (hmac_sha256 e key (urlencode e params)))"

definition RECV_WINDOW :: string where
  "RECV_WINDOW = ''5000''"

text \<open>\<open>_preparePayload(params, security)\<close>, with \<open>now\<close> the clock reading in milliseconds.\<close>

definition preparePayload :: "env \<Rightarrow> int \<Rightarrow> pydict option \<Rightarrow> EndpointSecurity \<Rightarrow> error + pydict" where
  "preparePayload e now params security =
     (let payload = (case params of None \<Rightarrow> [] | Some ps \<Rightarrow> prepare_loop [] ps) in
      if in_SIGNED security then
        (let p1 = AList.update ''recvWindow'' (PStr RECV_WINDOW) payload;
             p2 = AList.update ''timestamp'' (PStr (str_int now)) p1
         in case sign e p2 of
              Inl err \<Rightarrow> Inl err
            | Inr sig \<Rightarrow> Inr (AList.update ''signature'' (PStr sig) p2))
      else Inr payload)"

section \<open>One request\<close>

text \<open>
  \<open>_request\<close>: wait for the endpoint's rate limiter (a delay only, it changes no
  value), build the payload, send it, decode the body. The status code of the
  response is not read.
\<close>

definition request :: "env \<Rightarrow> Endpoints \<Rightarrow> pydict option \<Rightarrow> pyval coroutine" where
  "request e endPoint params st =
     (let baseEndpoint = endpoint_value endPoint in
      case preparePayload e (clock e (sent st)) params (SECURITY baseEndpoint) of
        Inl err \<Rightarrow> (Inl err, st)
      | Inr payload \<Rightarrow>
          (let rq = \<lparr>rq_method = METHOD baseEndpoint, rq_url = URL baseEndpoint, rq_params = payload\<rparr>;
               st' = st\<lparr>sent := sent st @ [rq]\<rparr>
           in case server e (sent st) rq of
                ConnectionFailed \<Rightarrow> (Inl TransportError, st')
              | Response code body \<Rightarrow>
                  (case body of
                     None \<Rightarrow> (Inl DecodeError, st')
                   | Some data \<Rightarrow> (Inr data, st'))))"


section \<open>Tasks and \<open>gather\<close>\<close>

text \<open>
  \<open>create_task(coro)\<close> only schedules the coroutine: its body starts when the creating
  coroutine next suspends, which in the methods below is at \<open>await gather(*tasks)\<close>,
  after the loop that created the tasks has finished. A task is therefore a
  computation on the state in which it eventually runs; an argument that is a dict
  object is an address, read when the task runs.

  \<open>gather\<close> runs the tasks in some order and returns their results in task order; if
  a task raises, the first exception raised is the one \<open>gather\<close> raises (the other
  tasks are not cancelled). The order is a parameter: \<open>schedule n ord\<close> turns any list
  into an order of the tasks \<open>0..<n\<close>, and is \<open>ord\<close> itself when \<open>ord\<close> is a permutation.
\<close>

definition schedule :: "nat \<Rightarrow> nat list \<Rightarrow> nat list" where
  "schedule n ord = remdups (filter (\<lambda>i. i < n) ord) @ filter (\<lambda>i. \<not> List.member ord i) [0..<n]"

fun run_tasks :: "'a coroutine list \<Rightarrow> nat list \<Rightarrow> state \<Rightarrow> (nat \<times> (error + 'a)) list \<times> state" where
  "run_tasks ts [] st = ([], st)"
| "run_tasks ts (i # is) st =
     (case (ts ! i) st of
        (r, st') \<Rightarrow> (case run_tasks ts is st' of (rs, st'') \<Rightarrow> ((i, r) # rs, st'')))"

fun first_error :: "(nat \<times> (error + 'a)) list \<Rightarrow> error option" where
  "first_error [] = None"
| "first_error (ir # rs) = (case snd ir of Inl err \<Rightarrow> Some err | Inr v \<Rightarrow> first_error rs)"

definition task_results :: "nat \<Rightarrow> (nat \<times> (error + 'a)) list \<Rightarrow> 'a list" where
  "task_results n finished =
     concat (map (\<lambda>i. case map_of finished i of Some (Inr v) \<Rightarrow> [v] | Some (Inl err) \<Rightarrow> [] | None \<Rightarrow> []) [0..<n])"

definition gather :: "'a coroutine list \<Rightarrow> nat list \<Rightarrow> state \<Rightarrow> (error + 'a list) \<times> state" where
  "gather ts ord st =
     (case run_tasks ts (schedule (length ts) ord) st of
        (finished, st') \<Rightarrow>
          (case first_error finished of
             Some err \<Rightarrow> (Inl err, st')
           | None \<Rightarrow> (Inr (task_results (length ts) finished), st')))"

section \<open>Splitting a time range\<close>

text \<open>
  \<^verbatim>\<open>
    payload = params.copy()
    tasks = []
    for start in range(START_MS, END_MS, maxRange):
        payload["startTime"] = start
        payload["endTime"] = min(END_MS, start + maxRange)
        tasks.append(create_task(func(endpoint, payload)))
    resp = await gather(*tasks)
    data = [x for l in resp for x in l]
  \<close>
  Every task is given the same dict object \<open>payload\<close>, which the loop goes on
  writing to; \<open>_request\<close> reads it (in \<open>_preparePayload\<close>) when the task runs.
\<close>

fun split_loop ::
  "(Endpoints \<Rightarrow> pydict option \<Rightarrow> pyval coroutine) \<Rightarrow> Endpoints \<Rightarrow> nat \<Rightarrow> int \<Rightarrow> int \<Rightarrow>
   int list \<Rightarrow> pyval coroutine list \<Rightarrow> state \<Rightarrow> pyval coroutine list \<times> state" where
  "split_loop func endpoint payload END_MS maxRange [] tasks st = (tasks, st)"
| "split_loop func endpoint payload END_MS maxRange (start # starts) tasks st =
     (let st1 = heap_set payload ''startTime'' (PInt start) st;
          st2 = heap_set payload ''endTime'' (PInt (min END_MS (start + maxRange))) st1;
          task = (\<lambda>s. func endpoint (Some (deref s payload)) s)
      in split_loop func endpoint payload END_MS maxRange starts (tasks @ [task]) st2)"

text \<open>\<open>[x for l in resp for x in l]\<close>\<close>

fun flatten :: "pyval list \<Rightarrow> error + pyval list" where
  "flatten [] = Inr []"
| "flatten (l # ls) =
     (case py_iter l of
        Inl err \<Rightarrow> Inl err
      | Inr xs \<Rightarrow> (case flatten ls of Inl err \<Rightarrow> Inl err | Inr ys \<Rightarrow> Inr (xs @ ys)))"

definition split_request_interval ::
  "env \<Rightarrow> Endpoints \<Rightarrow> int \<Rightarrow> pydict \<Rightarrow> (Endpoints \<Rightarrow> pydict option \<Rightarrow> pyval coroutine) option \<Rightarrow>
   nat list \<Rightarrow> pyval coroutine" where
  "split_request_interval e endpoint maxRange params func ord st =
     (case map_of params ''startTime'' of
        None \<Rightarrow> (Inl KeyError, st)
      | Some START_MS \<Rightarrow>
     (case map_of params ''endTime'' of
        None \<Rightarrow> (Inl KeyError, st)
      | Some END_MS \<Rightarrow>
     (let func' = (case func of None \<Rightarrow> request e | Some f \<Rightarrow> f) in
      case alloc params st of (payload, st0) \<Rightarrow>
     (case as_int START_MS of
        None \<Rightarrow> (Inl TypeError, st0)
      | Some start_ms \<Rightarrow>
     (case as_int END_MS of
        None \<Rightarrow> (Inl TypeError, st0)
      | Some end_ms \<Rightarrow>
     (case py_range start_ms end_ms maxRange of
        Inl err \<Rightarrow> (Inl err, st0)
      | Inr starts \<Rightarrow>
     (case split_loop func' endpoint payload end_ms maxRange starts [] st0 of (tasks, st1) \<Rightarrow>
     (case gather tasks ord st1 of
        (Inl err, st2) \<Rightarrow> (Inl err, st2)
      | (Inr resp, st2) \<Rightarrow>
          (case flatten resp of
             Inl err \<Rightarrow> (Inl err, st2)
           | Inr data \<Rightarrow> (Inr (PList data), st2))))))))))"

section \<open>Page fan-out\<close>

text \<open>
  \<^verbatim>\<open>
    payload = params.copy()
    itemsPerRequest = payload[rowsKey]
    data = []
    payload[pageKey] = 1
    resp = await self._request(endPoint=endPoint, params=payload)
    data.extend(resp[dataKey])
    tasks = []
    for _ in range(itemsPerRequest, resp[totalKey] + 1, itemsPerRequest):
        payload[pageKey] += 1
        tasks.append(create_task(self._request(endPoint=endPoint, params=payload)))
    resp = await gather(*tasks)
    data.extend([x for r in resp for x in r[dataKey]])
  \<close>
  \<open>heap_incr\<close> is \<open>payload[pageKey] += 1\<close>; the entry is the integer set before
  the loop, so its last case is never taken.
\<close>

definition heap_incr :: "nat \<Rightarrow> string \<Rightarrow> state \<Rightarrow> state" where
  "heap_incr a k st =
     (case map_of (deref st a) k of
        Some (PInt n) \<Rightarrow> heap_set a k (PInt (n + 1)) st
      | Some (PBool b) \<Rightarrow> heap_set a k (PInt ((if b then 1 else 0) + 1)) st
      | _ \<Rightarrow> st)"

fun page_loop ::
  "env \<Rightarrow> Endpoints \<Rightarrow> nat \<Rightarrow> string \<Rightarrow> int list \<Rightarrow> pyval coroutine list \<Rightarrow> state \<Rightarrow>
   pyval coroutine list \<times> state" where
  "page_loop e endPoint payload pageKey [] tasks st = (tasks, st)"
| "page_loop e endPoint payload pageKey (x # xs) tasks st =
     (let st1 = heap_incr payload pageKey st;
          task = (\<lambda>s. request e endPoint (Some (deref s payload)) s)
      in page_loop e endPoint payload pageKey xs (tasks @ [task]) st1)"

text \<open>\<open>[x for r in resp for x in r[dataKey]]\<close>\<close>

fun flatten_key :: "string \<Rightarrow> pyval list \<Rightarrow> error + pyval list" where
  "flatten_key k [] = Inr []"
| "flatten_key k (r # rs) =
     (case py_getitem r k of
        Inl err \<Rightarrow> Inl err
      | Inr d \<Rightarrow>
          (case py_iter d of
             Inl err \<Rightarrow> Inl err
           | Inr xs \<Rightarrow> (case flatten_key k rs of Inl err \<Rightarrow> Inl err | Inr ys \<Rightarrow> Inr (xs @ ys))))"

definition paginatedRequests ::
  "env \<Rightarrow> Endpoints \<Rightarrow> pydict option \<Rightarrow> string \<Rightarrow> string \<Rightarrow> string \<Rightarrow> string \<Rightarrow> nat list \<Rightarrow>
   pyval coroutine" where
  "paginatedRequests e endPoint params rowsKey pageKey dataKey totalKey ord st =
     (case params of
        None \<Rightarrow> (Inl AttributeError, st)
      | Some ps \<Rightarrow>
     (case alloc ps st of (payload, st0) \<Rightarrow>
     (case map_of ps rowsKey of
        None \<Rightarrow> (Inl KeyError, st0)
      | Some itemsPerRequest \<Rightarrow>
     (let st1 = heap_set payload pageKey (PInt 1) st0 in
      case request e endPoint (Some (deref st1 payload)) st1 of
        (Inl err, st2) \<Rightarrow> (Inl err, st2)
      | (Inr resp, st2) \<Rightarrow>
     (case py_getitem resp dataKey of
        Inl err \<Rightarrow> (Inl err, st2)
      | Inr first \<Rightarrow>
     (case py_iter first of
        Inl err \<Rightarrow> (Inl err, st2)
      | Inr data \<Rightarrow>
     (case py_getitem resp totalKey of
        Inl err \<Rightarrow> (Inl err, st2)
      | Inr total_items \<Rightarrow>
     (case as_int total_items of
        None \<Rightarrow> (Inl TypeError, st2)
      | Some n \<Rightarrow>
     (case as_int itemsPerRequest of
        None \<Rightarrow> (Inl TypeError, st2)
      | Some rows \<Rightarrow>
     (case py_range rows (n + 1) rows of
        Inl err \<Rightarrow> (Inl err, st2)
      | Inr pages \<Rightarrow>
     (case page_loop e endPoint payload pageKey pages [] st2 of (tasks, st3) \<Rightarrow>
     (case gather tasks ord st3 of
        (Inl err, st4) \<Rightarrow> (Inl err, st4)
      | (Inr resps, st4) \<Rightarrow>
          (case flatten_key dataKey resps of
             Inl err \<Rightarrow> (Inl err, st4)
           | Inr rest \<Rightarrow> (Inr (PList (data @ rest)), st4))))))))))))))"

section \<open>Cursor pagination of trades\<close>

text \<open>\<open>resp[-1]["id"] + 1\<close>\<close>

definition next_fromId :: "pyval \<Rightarrow> error + pyval" where
  "next_fromId resp =
     (case py_last resp of
        Inl err \<Rightarrow> Inl err
      | Inr trade \<Rightarrow>
          (case py_getitem trade ''id'' of
             Inl err \<Rightarrow> Inl err
           | Inr i \<Rightarrow> (case as_int i of None \<Rightarrow> Inl TypeError | Some n \<Rightarrow> Inr (PInt (n + 1)))))"

text \<open>\<open>len(resp) < limit\<close>\<close>

definition len_lt :: "pyval \<Rightarrow> pyval \<Rightarrow> error + bool" where
  "len_lt resp limit =
     (case py_len resp of
        None \<Rightarrow> Inl TypeError
      | Some n \<Rightarrow> (case as_int limit of None \<Rightarrow> Inl TypeError | Some l \<Rightarrow> Inr (int n < l)))"

text \<open>
  One turn of the loop of \<open>_tradesCycle\<close>, entered with \<open>not enforceLimit\<close> true:
  \<^verbatim>\<open>
        data.extend(resp)
        if len(resp) < limit:
            break
        payload["fromId"] = resp[-1]["id"] + 1
        payload.pop("startTime", None)
        resp = await self._request(endPoint=ENDPOINT, params=payload)
  \<close>
  \<open>Inl\<close> is the way out of the loop (the value returned or the exception raised),
  \<open>Inr\<close> the variables for the next turn.
\<close>

definition tradesStep ::
  "env \<Rightarrow> pyval \<Rightarrow> pydict \<Rightarrow> pyval list \<Rightarrow> pyval \<Rightarrow> state \<Rightarrow>
   ((error + pyval) \<times> state) + (pydict \<times> pyval list \<times> pyval \<times> state)" where
  "tradesStep e limit payload data resp st =
     (case py_iter resp of
        Inl err \<Rightarrow> Inl (Inl err, st)
      | Inr items \<Rightarrow>
          (case len_lt resp limit of
             Inl err \<Rightarrow> Inl (Inl err, st)
           | Inr partial_page \<Rightarrow>
               if partial_page then Inl (Inr (PList (data @ items)), st)
               else
                 (case next_fromId resp of
                    Inl err \<Rightarrow> Inl (Inl err, st)
                  | Inr fromId \<Rightarrow>
                      (let payload' = AList.delete ''startTime'' (AList.update ''fromId'' fromId payload)
                       in case request e SPOT_TRADES (Some payload') st of
                            (Inl err, st') \<Rightarrow> Inl (Inl err, st')
                          | (Inr resp', st') \<Rightarrow> Inr (payload', data @ items, resp', st')))))"

text \<open>
  \<open>while not enforceLimit: ...\<close> followed by \<open>return data\<close>. The loop has no bound of
  its own (a server that keeps sending full pages keeps it running), so the result is
  an option: \<open>None\<close> is a call that never returns.
\<close>

partial_function (option) tradesLoop ::
  "env \<Rightarrow> bool \<Rightarrow> pyval \<Rightarrow> pydict \<Rightarrow> pyval list \<Rightarrow> pyval \<Rightarrow> state \<Rightarrow> ((error + pyval) \<times> state) option" where
  "tradesLoop e enforceLimit limit payload data resp st =
     (if \<not> enforceLimit then
        (case tradesStep e limit payload data resp st of
           Inl out \<Rightarrow> Some out
         | Inr again \<Rightarrow>
             (case again of (payload', data', resp', st') \<Rightarrow>
                tradesLoop e enforceLimit limit payload' data' resp' st'))
      else Some (Inr (PList data), st))"

text \<open>
  \<^verbatim>\<open>
    payload = params.copy()
    limit: int = params["limit"]
    data = []
    resp = await self._request(endPoint=ENDPOINT, params=payload)
    if payload["endTime"]:
        return resp
    while not enforceLimit: ...
    return data
  \<close>
\<close>

definition tradesCycle :: "env \<Rightarrow> pydict \<Rightarrow> bool \<Rightarrow> state \<Rightarrow> ((error + pyval) \<times> state) option" where
  "tradesCycle e params enforceLimit st =
     (case map_of params ''limit'' of
        None \<Rightarrow> Some (Inl KeyError, st)
      | Some limit \<Rightarrow>
          (case request e SPOT_TRADES (Some params) st of
             (Inl err, st') \<Rightarrow> Some (Inl err, st')
           | (Inr resp, st') \<Rightarrow>
               (case map_of params ''endTime'' of
                  None \<Rightarrow> Some (Inl KeyError, st')
                | Some endTime \<Rightarrow>
                    if truthy endTime then Some (Inr resp, st')
                    else tradesLoop e enforceLimit limit params [] resp st')))"

section \<open>Symbols, times and intervals\<close>

definition is_alnum :: "char \<Rightarrow> bool" where
  "is_alnum c = List.member ''ABCDEFGHIJKLMNOPQRSTUVWXYZabcdefghijklmnopqrstuvwxyz0123456789'' c"

definition to_upper :: "char \<Rightarrow> char" where
  "to_upper c =
     (case map_of (zip ''abcdefghijklmnopqrstuvwxyz'' ''ABCDEFGHIJKLMNOPQRSTUVWXYZ'') c of
        None \<Rightarrow> c
      | Some u \<Rightarrow> u)"

text \<open>\<open>re.sub("[^A-Za-z0-9]", "", symbol).upper()\<close>; \<open>re.sub\<close> raises \<open>TypeError\<close> on anything but a string.\<close>

fun prepareSymbol :: "pyval \<Rightarrow> error + pyval" where
  "prepareSymbol (PStr s) = Inr (PStr (map to_upper (filter is_alnum s)))"
| "prepareSymbol PNone = Inl TypeError"
| "prepareSymbol (PBool b) = Inl TypeError"
| "prepareSymbol (PInt i) = Inl TypeError"
| "prepareSymbol (PList xs) = Inl TypeError"
| "prepareSymbol (PDict d) = Inl TypeError"

text \<open>\<open>[self._prepareSymbol(symbol) for symbol in symbols]\<close>, after the iteration has started.\<close>

fun prepareSymbols :: "pyval list \<Rightarrow> error + pyval list" where
  "prepareSymbols [] = Inr []"
| "prepareSymbols (x # xs) =
     (case prepareSymbol x of
        Inl err \<Rightarrow> Inl err
      | Inr y \<Rightarrow> (case prepareSymbols xs of Inl err \<Rightarrow> Inl err | Inr ys \<Rightarrow> Inr (y # ys)))"

text \<open>
  \<open>_parseTime\<close> and \<open>_timestamp\<close> on integers, which pass through; \<open>until or now\<close> takes
  the clock when \<open>until\<close> is \<open>None\<close> or 0. (\<open>datetime\<close> arguments are outside the model.)
\<close>

definition parseTime :: "env \<Rightarrow> int \<Rightarrow> int option \<Rightarrow> state \<Rightarrow> int \<times> int" where
  "parseTime e since until st =
     (since, (case until of
                None \<Rightarrow> clock e (sent st)
              | Some u \<Rightarrow> if u \<noteq> 0 then u else clock e (sent st)))"

definition is_digit :: "char \<Rightarrow> bool" where
  "is_digit c = List.member ''0123456789'' c"

definition is_letter :: "char \<Rightarrow> bool" where
  "is_letter c = List.member ''ABCDEFGHIJKLMNOPQRSTUVWXYZabcdefghijklmnopqrstuvwxyz'' c"

definition digit_value :: "char \<Rightarrow> int" where
  "digit_value c =
     (case map_of (zip ''0123456789'' [0, 1, 2, 3, 4, 5, 6, 7, 8, 9]) c of None \<Rightarrow> 0 | Some d \<Rightarrow> d)"

definition int_of_digits :: "string \<Rightarrow> int" where
  "int_of_digits ds = foldl (\<lambda>a c. 10 * a + digit_value c) 0 ds"

definition TIME_INTERVAL :: "char \<Rightarrow> int option" where
  "TIME_INTERVAL c =
     map_of [(CHR ''s'', 1000), (CHR ''m'', 60000), (CHR ''h'', 3600000), (CHR ''d'', 86400000),
             (CHR ''w'', 604800000), (CHR ''M'', 2592000000)] c"

definition to_lower_SHDW :: "char \<Rightarrow> char" where
  "to_lower_SHDW c =
     (case map_of (zip ''SHDW'' ''shdw'') c of None \<Rightarrow> c | Some l \<Rightarrow> l)"

text \<open>
  \<^verbatim>\<open>
    num = int(search(r"(\d+)", tf)[0])
    timeInterval = search("([A-Za-z]{1})", tf)[0]
    if timeInterval in ["S", "H", "D", "W"]: timeInterval = timeInterval.lower()
    millSecInterval = num * AsyncExchange.TIME_INTERVAL[timeInterval]
  \<close>
  A search that finds nothing gives \<open>None\<close>, and \<open>None[0]\<close> raises \<open>TypeError\<close>.
\<close>

fun timeInterval :: "pyval \<Rightarrow> error + int" where
  "timeInterval (PStr tf) =
     (let ds = takeWhile is_digit (dropWhile (\<lambda>c. \<not> is_digit c) tf) in
      if ds = [] then Inl TypeError
      else
        (case filter is_letter tf of
           [] \<Rightarrow> Inl TypeError
         | c # cs \<Rightarrow>
             (case TIME_INTERVAL (to_lower_SHDW c) of
                None \<Rightarrow> Inl KeyError
              | Some ms \<Rightarrow> Inr (int_of_digits ds * ms))))"
| "timeInterval PNone = Inl TypeError"
| "timeInterval (PBool b) = Inl TypeError"
| "timeInterval (PInt i) = Inl TypeError"
| "timeInterval (PList xs) = Inl TypeError"
| "timeInterval (PDict d) = Inl TypeError"

section \<open>Klines\<close>

text \<open>
  A field of a kline as \<open>_baseKlines\<close> returns it: the fields at the positions of
  \<open>stringField\<close> go through \<open>float\<close>, the others are kept. \<open>'f\<close> is the type of floats
  and \<open>flt\<close> the builtin \<open>float\<close>, which may raise.
\<close>

datatype 'f kfield = KFloat 'f | KField pyval

definition stringField :: "nat list" where
  "stringField = [1, 2, 3, 4, 5, 7, 9, 10]"

fun convert_kline :: "(pyval \<Rightarrow> error + 'f) \<Rightarrow> nat \<Rightarrow> pyval list \<Rightarrow> error + 'f kfield list" where
  "convert_kline flt idx [] = Inr []"
| "convert_kline flt idx (fld # flds) =
     (if List.member stringField idx then
        (case flt fld of
           Inl err \<Rightarrow> Inl err
         | Inr x \<Rightarrow>
             (case convert_kline flt (Suc idx) flds of
                Inl err \<Rightarrow> Inl err
              | Inr xs \<Rightarrow> Inr (KFloat x # xs)))
      else
        (case convert_kline flt (Suc idx) flds of
           Inl err \<Rightarrow> Inl err
         | Inr xs \<Rightarrow> Inr (KField fld # xs)))"

fun convert_klines :: "(pyval \<Rightarrow> error + 'f) \<Rightarrow> pyval list \<Rightarrow> error + 'f kfield list list" where
  "convert_klines flt [] = Inr []"
| "convert_klines flt (kline # rest) =
     (case py_iter kline of
        Inl err \<Rightarrow> Inl err
      | Inr flds \<Rightarrow>
          (case convert_kline flt 0 flds of
             Inl err \<Rightarrow> Inl err
           | Inr k \<Rightarrow>
               (case convert_klines flt rest of
                  Inl err \<Rightarrow> Inl err
                | Inr ks \<Rightarrow> Inr (k # ks))))"

definition baseKlines :: "env \<Rightarrow> (pyval \<Rightarrow> error + 'f) \<Rightarrow> pydict \<Rightarrow> ('f kfield list list) coroutine" where
  "baseKlines e flt params st =
     (case request e KLINES (Some params) st of
        (Inl err, st') \<Rightarrow> (Inl err, st')
      | (Inr klineList, st') \<Rightarrow>
          (case py_iter klineList of
             Inl err \<Rightarrow> (Inl err, st')
           | Inr ks \<Rightarrow>
               (case convert_klines flt ks of
                  Inl err \<Rightarrow> (Inl err, st')
                | Inr converted \<Rightarrow> (Inr converted, st'))))"

text \<open>
  \<^verbatim>\<open>
    for start in range(START_MS, END_MS + BASE_STEP, STEP + BASE_STEP):
        end = min(END_MS, start + STEP)
        tasks.append(create_task(self._baseKlines(params=dict(symbol=symbol, ...))))
    klines = await gather(*tasks)
    return klines
  \<close>
  Each turn builds a new dict for its task.
\<close>

fun klines_loop ::
  "env \<Rightarrow> (pyval \<Rightarrow> error + 'f) \<Rightarrow> pyval \<Rightarrow> pyval \<Rightarrow> pyval \<Rightarrow> int \<Rightarrow> int \<Rightarrow> int \<Rightarrow> int list \<Rightarrow>
   ('f kfield list list) coroutine list \<Rightarrow> state \<Rightarrow> ('f kfield list list) coroutine list \<times> state" where
  "klines_loop e flt symbol timeframe timezone limit END_MS STEP [] tasks st = (tasks, st)"
| "klines_loop e flt symbol timeframe timezone limit END_MS STEP (start # starts) tasks st =
     (case alloc [(''symbol'', symbol), (''interval'', timeframe), (''startTime'', PInt start),
                  (''endTime'', PInt (min END_MS (start + STEP))), (''timeZone'', timezone),
                  (''limit'', PInt limit)] st of
        (params, st1) \<Rightarrow>
          klines_loop e flt symbol timeframe timezone limit END_MS STEP starts
            (tasks @ [\<lambda>s. baseKlines e flt (deref s params) s]) st1)"

definition klines ::
  "env \<Rightarrow> (pyval \<Rightarrow> error + 'f) \<Rightarrow> pyval \<Rightarrow> pyval \<Rightarrow> int \<Rightarrow> int option \<Rightarrow> pyval \<Rightarrow> int \<Rightarrow> nat list \<Rightarrow>
   ('f kfield list list list) coroutine" where
  "klines e flt symbol timeframe since until timezone limit ord st =
     (case prepareSymbol symbol of
        Inl err \<Rightarrow> (Inl err, st)
      | Inr symbol' \<Rightarrow>
     (case parseTime e since until st of (START_MS, END_MS) \<Rightarrow>
     (case timeInterval timeframe of
        Inl err \<Rightarrow> (Inl err, st)
      | Inr BASE_STEP \<Rightarrow>
     (let STEP = BASE_STEP * limit in
      case py_range START_MS (END_MS + BASE_STEP) (STEP + BASE_STEP) of
        Inl err \<Rightarrow> (Inl err, st)
      | Inr starts \<Rightarrow>
     (case klines_loop e flt symbol' timeframe timezone limit END_MS STEP starts [] st of
        (tasks, st1) \<Rightarrow> gather tasks ord st1)))))"

section \<open>Public methods\<close>

text \<open>
  \<open>marketInfo\<close> builds its parameters twice (a dict display, then \<open>dict(...)\<close>), each
  time calling \<open>_prepareSymbol(symbol)\<close> and then iterating over \<open>symbols\<close>.
\<close>

definition marketInfo_params :: "pyval \<Rightarrow> pyval \<Rightarrow> pyval \<Rightarrow> pyval \<Rightarrow> pyval \<Rightarrow> error + pydict" where
  "marketInfo_params symbol symbols permissions show_permission_sets symbol_status =
     (case prepareSymbol symbol of
        Inl err \<Rightarrow> Inl err
      | Inr s \<Rightarrow>
          (case py_iter symbols of
             Inl err \<Rightarrow> Inl err
           | Inr xs \<Rightarrow>
               (case prepareSymbols xs of
                  Inl err \<Rightarrow> Inl err
                | Inr ss \<Rightarrow>
                    Inr [(''symbol'', s), (''symbols'', PList ss), (''permissions'', permissions),
                         (''showPermissionSets'', show_permission_sets),
                         (''symboslStatus'', symbol_status)])))"

definition marketInfo :: "env \<Rightarrow> pyval \<Rightarrow> pyval \<Rightarrow> pyval \<Rightarrow> pyval \<Rightarrow> pyval \<Rightarrow> pyval coroutine" where
  "marketInfo e symbol symbols permissions show_permission_sets symbol_status st =
     (case marketInfo_params symbol symbols permissions show_permission_sets symbol_status of
        Inl err \<Rightarrow> (Inl err, st)
      | Inr params0 \<Rightarrow>
          (case marketInfo_params symbol symbols permissions show_permission_sets symbol_status of
             Inl err \<Rightarrow> (Inl err, st)
           | Inr params \<Rightarrow> request e EXCHANGE_INFO (Some params) st))"

text \<open>\<open>self._timestamp(t) if t else None\<close>, on an optional integer.\<close>

definition timestamp_or_None :: "int option \<Rightarrow> pyval" where
  "timestamp_or_None t = (case t of None \<Rightarrow> PNone | Some ms \<Rightarrow> if ms \<noteq> 0 then PInt ms else PNone)"

definition spotTrades ::
  "env \<Rightarrow> pyval \<Rightarrow> int option \<Rightarrow> int option \<Rightarrow> pyval \<Rightarrow> pyval \<Rightarrow> pyval \<Rightarrow> bool \<Rightarrow> nat list \<Rightarrow> state \<Rightarrow>
   ((error + pyval) \<times> state) option" where
  "spotTrades e symbol since until orderId fromId limit enforceLimit ord st =
     (let START_MS = timestamp_or_None since;
          END_MS = timestamp_or_None until
      in case prepareSymbol symbol of
           Inl err \<Rightarrow> Some (Inl err, st)
         | Inr symbol' \<Rightarrow>
             (let params = [(''symbol'', symbol'), (''orderId'', orderId), (''startTime'', START_MS),
                            (''endTime'', END_MS), (''fromId'', fromId), (''limit'', limit)]
              in if truthy START_MS \<and> truthy END_MS
                 then Some (split_request_interval e SPOT_TRADES (1000 * 60 * 60 * 24) params None ord st)
                 else tradesCycle e params enforceLimit st))"





section \<open>A test double\<close>

text \<open>
  A client with a secret, a stub signer, a fixed clock and a server that answers every
  request with status 200 and an empty list; the state of a client that has sent
  nothing and allocated nothing.
\<close>

definition env0 :: env where
  "env0 = \<lparr>SECRET = Some ''secret'', hmac_sha256 = (\<lambda>key msg. ''feed''), urlencode = (\<lambda>d. []),
            clock = (\<lambda>h. 1700000000000), server = (\<lambda>h rq. Response 200 (Some (PList [])))\<rparr>"

definition st0 :: state where
  "st0 = \<lparr>heap = [], sent = []\<rparr>"

definition example_params :: pydict where
  "example_params = [(''a'', PNone), (''b'', PList []), (''c'', PBool True),
                     (''d'', PList [PInt 1, PInt 2]), (''e'', PStr ''x'')]"

text \<open>
  A server that pages trades by \<open>fromId\<close>, two to a page: trades 1 to 7, so three full
  pages and a last page of one trade when the limit is 2.
\<close>

definition trade :: "int \<Rightarrow> pyval" where
  "trade i = PDict [(''id'', PInt i), (''price'', PStr ''4.00000100'')]"

definition trades_from :: "int \<Rightarrow> pyval list" where
  "trades_from f = (if f < 7 then [trade f, trade (f + 1)] else if f = 7 then [trade 7] else [])"

definition env_trades :: env where
  "env_trades = env0\<lparr>server := (\<lambda>h rq.
      Response 200 (Some (PList (trades_from
        (case map_of (rq_params rq) ''fromId'' of Some (PInt f) \<Rightarrow> f | _ \<Rightarrow> 1)))))\<rparr>"



text \<open>
  A server that answers one item recording the \<open>startTime\<close> it was asked for, and the
  window of the specification's example.
\<close>

definition env_window :: env where
  "env_window = env0\<lparr>server := (\<lambda>h rq.
      Response 200 (Some (PList [PDict [(''from'',
        (case map_of (rq_params rq) ''startTime'' of None \<Rightarrow> PNone | Some v \<Rightarrow> v))]])))\<rparr>"

definition window_params :: pydict where
  "window_params = [(''symbol'', PStr ''BTCUSDT''), (''startTime'', PInt 0), (''endTime'', PInt 10000)]"

definition last_slice_request :: request where
  "last_slice_request = \<lparr>rq_method = GET, rq_url = ''/api/v3/myTrades'',
      rq_params = [(''symbol'', PStr ''BTCUSDT''), (''startTime'', PInt 9000),
        (''endTime'', PInt 10000), (''recvWindow'', PStr ''5000''),
        (''timestamp'', PStr ''1700000000000''), (''signature'', PStr ''feed'')]\<rparr>"

text \<open>
  A server that declares 95 items in all and answers, as the one item of a page, the
  page number it was asked for; the parameters of a fiat query of 20 rows a page.
\<close>

definition env_pages :: env where
  "env_pages = env0\<lparr>server := (\<lambda>h rq.
      Response 200 (Some (PDict [(''data'',
        PList [case map_of (rq_params rq) ''page'' of None \<Rightarrow> PNone | Some v \<Rightarrow> v]),
        (''total'', PInt 95)])))\<rparr>"

definition fiat_params :: pydict where
  "fiat_params = [(''transactionType'', PStr ''0''), (''beginTime'', PInt 0), (''endTime'', PInt 1000),
                  (''rows'', PInt 20)]"

definition page_request :: "int \<Rightarrow> request" where
  "page_request p = \<lparr>rq_method = GET, rq_url = ''/sapi/v1/fiat/orders'',
      rq_params = [(''transactionType'', PStr ''0''), (''beginTime'', PInt 0), (''endTime'', PInt 1000),
        (''rows'', PInt 20), (''page'', PInt p), (''recvWindow'', PStr ''5000''),
        (''timestamp'', PStr ''1700000000000''), (''signature'', PStr ''feed'')]\<rparr>"

text \<open>
  A stand-in for \<open>float\<close> that keeps the literal it is given, and a server of
  candlesticks: two rows for every request, the first opening at the \<open>startTime\<close>
  asked for; the parameters, the request and the converted rows of one slice of a
  one-minute query with \<open>limit=1\<close>.
\<close>

definition float_literal :: "pyval \<Rightarrow> error + string" where
  "float_literal v =
     (case v of PStr s \<Rightarrow> Inr s | PInt i \<Rightarrow> Inr (str_int i) | _ \<Rightarrow> Inl TypeError)"

definition env_klines :: env where
  "env_klines = env0\<lparr>server := (\<lambda>h rq.
      Response 200 (Some
        (case map_of (rq_params rq) ''startTime'' of
           Some (PInt t) \<Rightarrow> PList [PList [PInt t, PStr ''1.5''], PList [PInt (t + 60000), PStr ''2.5'']]
         | _ \<Rightarrow> PList [])))\<rparr>"

definition kline_dict :: "int \<Rightarrow> int \<Rightarrow> pydict" where
  "kline_dict t u = [(''symbol'', PStr ''BTCUSDT''), (''interval'', PStr ''1m''), (''startTime'', PInt t),
                     (''endTime'', PInt u), (''timeZone'', PStr ''0''), (''limit'', PInt 1)]"

definition kline_request :: "int \<Rightarrow> int \<Rightarrow> request" where
  "kline_request t u = \<lparr>rq_method = GET, rq_url = ''/api/v3/klines'', rq_params = kline_dict t u\<rparr>"

definition kline_pair :: "int \<Rightarrow> string kfield list list" where
  "kline_pair t = [[KField (PInt t), KFloat ''1.5''], [KField (PInt (t + 60000)), KFloat ''2.5'']]"





section \<open>The payload\<close>

lemma update_fresh: "k \<notin> fst ` set al \<Longrightarrow> AList.update k v al = al @ [(k, v)]"
  by (induction al) auto

lemma prepare_loop_distinct:
  "distinct (map fst ps) \<Longrightarrow> fst ` set acc \<inter> fst ` set ps = {} \<Longrightarrow>
   prepare_loop acc ps =
     acc @ map (\<lambda>kv. (fst kv, prepared (snd kv))) (filter (\<lambda>kv. \<not> skipped (snd kv)) ps)"
proof (induction ps arbitrary: acc)
  case Nil
  then show ?case by simp
next
  case (Cons kv ps)
  have fresh: "fst kv \<notin> fst ` set acc" using Cons.prems(2) by auto
  show ?case
  proof (cases "skipped (snd kv)")
    case True
    have "fst ` set acc \<inter> fst ` set ps = {}" using Cons.prems(2) by auto
    with Cons True show ?thesis by simp
  next
    case False
    let ?acc = "AList.update (fst kv) (prepared (snd kv)) acc"
    have acc': "?acc = acc @ [(fst kv, prepared (snd kv))]" using fresh by (rule update_fresh)
    have "fst ` set ?acc \<inter> fst ` set ps = {}"
      using Cons.prems by (auto simp: acc')
    moreover have "distinct (map fst ps)" using Cons.prems(1) by simp
    ultimately have "prepare_loop ?acc ps =
        ?acc @ map (\<lambda>kv. (fst kv, prepared (snd kv))) (filter (\<lambda>kv. \<not> skipped (snd kv)) ps)"
      by (intro Cons.IH)
    with False show ?thesis by (simp add: acc')
  qed
qed

lemma map_of_prepared:
  "distinct (map fst ps) \<Longrightarrow>
   map_of (map (\<lambda>kv. (fst kv, prepared (snd kv))) (filter (\<lambda>kv. \<not> skipped (snd kv)) ps)) k =
     (case map_of ps k of None \<Rightarrow> None | Some v \<Rightarrow> if skipped v then None else Some (prepared v))"
proof (induction ps)
  case Nil
  then show ?case by simp
next
  case (Cons kv ps)
  then show ?case
    by (cases kv) (auto simp: map_of_eq_None_iff image_iff split: option.splits)
qed

text \<open>
  On a dict (distinct keys) the loop is a filter and a map: the kept entries stay in
  their order, each with its prepared value.
\<close>

lemma prepare_loop_dict:
  "distinct (map fst ps) \<Longrightarrow>
   prepare_loop [] ps = map (\<lambda>kv. (fst kv, prepared (snd kv))) (filter (\<lambda>kv. \<not> skipped (snd kv)) ps)"
  using prepare_loop_distinct [of ps "[]"] by simp

lemma skipped_iff: "skipped v \<longleftrightarrow> v = PNone \<or> v = PStr [] \<or> v = PList [] \<or> v = PDict []"
  by (cases v) (auto simp: skipped_def)

lemma preparePayload_unsigned:
  "\<not> in_SIGNED security \<Longrightarrow> preparePayload e now (Some ps) security = Inr (prepare_loop [] ps)"
  by (simp add: preparePayload_def)

lemma preparePayload_signed_lookup:
  assumes "in_SIGNED security"
    and "preparePayload e now (Some ps) security = Inr payload"
    and "k \<noteq> ''recvWindow''" and "k \<noteq> ''timestamp''" and "k \<noteq> ''signature''"
  shows "map_of payload k = map_of (prepare_loop [] ps) k"
  using assms
  by (auto simp: preparePayload_def Let_def update_conv' split: sum.splits)

lemma example_payload:
  "preparePayload e now (Some example_params) NONE =
     Inr [(''c'', PStr ''true''), (''d'', PStr ''[1,2]''), (''e'', PStr ''x'')]"
  by (simp add: example_params_def preparePayload_def skipped_def str_int_def digits.simps
      digit_char_def)

text \<open>
  C6. For a parameter dict, the prepared payload has no entry for a key whose value is
  \<open>None\<close> or empty (\<open>""\<close>, \<open>[]\<close>, \<open>{}\<close>: what has \<open>__len__\<close> and length 0), has
  \<open>"true"\<close>/\<open>"false"\<close> for a boolean, the compact JSON text for a list, and the value
  itself for anything else. On a signed endpoint this holds for every key but the three
  fields appended for the signature. The example of the specification, on an unsigned
  endpoint, gives exactly \<open>{c: "true", d: "[1,2]", e: "x"}\<close>.
\<close>

theorem preparePayload_entries:
  assumes "distinct (map fst params)"
    and "preparePayload e now (Some params) security = Inr payload"
    and "in_SIGNED security \<longrightarrow> k \<noteq> ''recvWindow'' \<and> k \<noteq> ''timestamp'' \<and> k \<noteq> ''signature''"
  shows "map_of payload k =
           (case map_of params k of
              None \<Rightarrow> None
            | Some v \<Rightarrow>
                if v = PNone \<or> v = PStr [] \<or> v = PList [] \<or> v = PDict [] then None
                else (case v of
                        PBool b \<Rightarrow> Some (PStr (if b then ''true'' else ''false''))
                      | PList xs \<Rightarrow> Some (PStr (json_dumps (PList xs)))
                      | _ \<Rightarrow> Some v))
         \<and> preparePayload e now (Some example_params) NONE =
             Inr [(''c'', PStr ''true''), (''d'', PStr ''[1,2]''), (''e'', PStr ''x'')]"
proof -
  have "map_of payload k = map_of (prepare_loop [] params) k"
  proof (cases "in_SIGNED security")
    case True
    with assms(2,3) show ?thesis by (simp add: preparePayload_signed_lookup)
  next
    case False
    with assms(2) show ?thesis by (simp add: preparePayload_unsigned)
  qed
  also have "\<dots> = (case map_of params k of None \<Rightarrow> None
                   | Some v \<Rightarrow> if skipped v then None else Some (prepared v))"
    using assms(1) by (simp add: prepare_loop_dict map_of_prepared)
  also have "\<dots> = (case map_of params k of
              None \<Rightarrow> None
            | Some v \<Rightarrow>
                if v = PNone \<or> v = PStr [] \<or> v = PList [] \<or> v = PDict [] then None
                else (case v of
                        PBool b \<Rightarrow> Some (PStr (if b then ''true'' else ''false''))
                      | PList xs \<Rightarrow> Some (PStr (json_dumps (PList xs)))
                      | _ \<Rightarrow> Some v))"
    by (auto simp: skipped_iff split: option.splits pyval.splits)
  finally show ?thesis by (simp add: example_payload)
qed

theorem preparePayload_entries_witness:
  "distinct (map fst example_params)
   \<and> preparePayload env0 0 (Some example_params) USER_STREAM =
       Inr [(''c'', PStr ''true''), (''d'', PStr ''[1,2]''), (''e'', PStr ''x'')]
   \<and> map_of [(''c'', PStr ''true''), (''d'', PStr ''[1,2]''), (''e'', PStr ''x'')] ''b'' = None
   \<and> map_of [(''c'', PStr ''true''), (''d'', PStr ''[1,2]''), (''e'', PStr ''x'')] ''d''
       = Some (PStr (json_dumps (PList [PInt 1, PInt 2])))"
proof -
  have d: "distinct (map fst example_params)"
    by (simp add: example_params_def)
  have p: "preparePayload env0 0 (Some example_params) USER_STREAM =
       Inr [(''c'', PStr ''true''), (''d'', PStr ''[1,2]''), (''e'', PStr ''x'')]"
    by (simp add: example_params_def preparePayload_def skipped_def str_int_def digits.simps
        digit_char_def)
  have s: "in_SIGNED USER_STREAM \<longrightarrow> ''b'' \<noteq> ''recvWindow'' \<and> ''b'' \<noteq> ''timestamp'' \<and> ''b'' \<noteq> ''signature''"
    by simp
  have s': "in_SIGNED USER_STREAM \<longrightarrow> ''d'' \<noteq> ''recvWindow'' \<and> ''d'' \<noteq> ''timestamp'' \<and> ''d'' \<noteq> ''signature''"
    by simp
  show ?thesis
    using d p preparePayload_entries [OF d p s] preparePayload_entries [OF d p s']
    by (simp add: example_params_def)
qed

section \<open>Requests and the state\<close>

lemma request_heap: "request e ep ps st = (r, st') \<Longrightarrow> heap st' = heap st"
  by (auto simp: request_def Let_def split: sum.splits response.splits option.splits)

lemma request_Inr_sent:
  "request e ep ps st = (Inr v, st') \<Longrightarrow> \<exists>rq. sent st' = sent st @ [rq]"
  by (auto simp: request_def Let_def split: sum.splits response.splits option.splits)

section \<open>\<open>marketInfo\<close>\<close>

lemma marketInfo_params_None:
  "symbol = PNone \<or> symbols = PNone \<Longrightarrow>
   marketInfo_params symbol symbols permissions show_permission_sets symbol_status = Inl TypeError"
  by (cases symbol) (auto simp: marketInfo_params_def)

text \<open>
  C8. A call of \<open>marketInfo\<close> whose \<open>symbol\<close> is \<open>None\<close> or whose \<open>symbols\<close> is \<open>None\<close>
  raises \<open>TypeError\<close> and leaves the state as it was: no request has been sent. The
  defaults are \<open>None\<close> for both, so a call that omits either one cannot succeed.
\<close>

theorem marketInfo_None_TypeError:
  assumes "symbol = PNone \<or> symbols = PNone"
  shows "marketInfo e symbol symbols permissions show_permission_sets symbol_status st
           = (Inl TypeError, st)"
  using marketInfo_params_None [OF assms] by (simp add: marketInfo_def)

theorem marketInfo_None_TypeError_witness:
  "marketInfo env0 PNone PNone PNone (PBool True) PNone st0 = (Inl TypeError, st0)
   \<and> marketInfo env0 (PStr ''BNBBTC'') PNone PNone (PBool True) PNone st0 = (Inl TypeError, st0)
   \<and> marketInfo env0 PNone (PList [PStr ''BTCUSDT'', PStr ''BNBBTC'']) (PList [PStr ''SPOT''])
        (PBool True) (PStr ''TRADING'') st0 = (Inl TypeError, st0)"
  using marketInfo_None_TypeError [of PNone PNone env0 PNone "PBool True" PNone st0]
    marketInfo_None_TypeError [of "PStr ''BNBBTC''" PNone env0 PNone "PBool True" PNone st0]
    marketInfo_None_TypeError [of PNone "PList [PStr ''BTCUSDT'', PStr ''BNBBTC'']" env0
       "PList [PStr ''SPOT'']" "PBool True" "PStr ''TRADING''" st0]
  by simp

section \<open>The cursor paginator\<close>

lemma tradesLoop_enforced:
  "tradesLoop e True limit payload data resp st = Some (Inr (PList data), st)"
  by (subst tradesLoop.simps) simp

lemma prepareSymbol_example: "prepareSymbol (PStr ''btc/usdt'') = Inr (PStr ''BTCUSDT'')"
  by (simp add: is_alnum_def to_upper_def)

lemma first_trades_request:
  "request env_trades SPOT_TRADES
     (Some [(''symbol'', PStr ''BTCUSDT''), (''orderId'', PNone), (''startTime'', PNone),
            (''endTime'', PNone), (''fromId'', PNone), (''limit'', PInt 2)]) st0 =
   (Inr (PList [trade 1, trade 2]),
    \<lparr>heap = [], sent = [\<lparr>rq_method = GET, rq_url = ''/api/v3/myTrades'',
        rq_params = [(''symbol'', PStr ''BTCUSDT''), (''limit'', PInt 2), (''recvWindow'', PStr ''5000''),
           (''timestamp'', PStr ''1700000000000''), (''signature'', PStr ''feed'')]\<rparr>]\<rparr>)"
  by (simp add: request_def preparePayload_def sign_def env_trades_def env0_def st0_def skipped_def
        RECV_WINDOW_def str_int_def digits.simps digit_char_def trades_from_def)

text \<open>
  C9. \<open>spotTrades\<close> with \<open>enforceLimit=True\<close> and no end-time bound (\<open>until\<close> is \<open>None\<close>
  or 0): when its one request succeeds, whatever the response holds, the call returns
  the empty list, and exactly one request has been sent.
\<close>

theorem spotTrades_enforceLimit_empty:
  assumes "prepareSymbol symbol = Inr symb"
    and "timestamp_or_None until = PNone"
    and "request e SPOT_TRADES
           (Some [(''symbol'', symb), (''orderId'', orderId), (''startTime'', timestamp_or_None since),
                  (''endTime'', PNone), (''fromId'', fromId), (''limit'', limit)]) st = (Inr resp, st')"
  shows "spotTrades e symbol since until orderId fromId limit True ord st = Some (Inr (PList []), st')
         \<and> length (sent st') = length (sent st) + 1"
proof -
  from request_Inr_sent [OF assms(3)] have "length (sent st') = length (sent st) + 1" by auto
  then show ?thesis
    using assms by (simp add: spotTrades_def tradesCycle_def tradesLoop_enforced)
qed

theorem spotTrades_enforceLimit_empty_witness:
  "spotTrades env_trades (PStr ''btc/usdt'') None None PNone PNone (PInt 2) True [] st0 =
     Some (Inr (PList []),
       \<lparr>heap = [], sent = [\<lparr>rq_method = GET, rq_url = ''/api/v3/myTrades'',
          rq_params = [(''symbol'', PStr ''BTCUSDT''), (''limit'', PInt 2), (''recvWindow'', PStr ''5000''),
             (''timestamp'', PStr ''1700000000000''), (''signature'', PStr ''feed'')]\<rparr>]\<rparr>)
   \<and> fst (request env_trades SPOT_TRADES
          (Some [(''symbol'', PStr ''BTCUSDT''), (''orderId'', PNone), (''startTime'', PNone),
                 (''endTime'', PNone), (''fromId'', PNone), (''limit'', PInt 2)]) st0)
       = Inr (PList [trade 1, trade 2])"
proof -
  have t: "timestamp_or_None None = PNone" by (simp add: timestamp_or_None_def)
  have r: "request env_trades SPOT_TRADES
     (Some [(''symbol'', PStr ''BTCUSDT''), (''orderId'', PNone), (''startTime'', timestamp_or_None None),
            (''endTime'', PNone), (''fromId'', PNone), (''limit'', PInt 2)]) st0 =
   (Inr (PList [trade 1, trade 2]),
    \<lparr>heap = [], sent = [\<lparr>rq_method = GET, rq_url = ''/api/v3/myTrades'',
        rq_params = [(''symbol'', PStr ''BTCUSDT''), (''limit'', PInt 2), (''recvWindow'', PStr ''5000''),
           (''timestamp'', PStr ''1700000000000''), (''signature'', PStr ''feed'')]\<rparr>]\<rparr>)"
    using first_trades_request by (simp add: t)
  show ?thesis
    using spotTrades_enforceLimit_empty [OF prepareSymbol_example t r, of "[]"] first_trades_request
    by simp
qed













section \<open>\<open>gather\<close> and the time-range splitter\<close>

lemma schedule_set: "set (schedule n ord) = {0..<n}"
  by (auto simp: schedule_def)

lemma schedule_distinct: "distinct (schedule n ord)"
  by (auto simp: schedule_def)

lemma schedule_0: "schedule 0 ord = []"
  using schedule_set [of 0 ord] by simp

lemma schedule_1: "schedule (Suc 0) ord = [0]"
proof -
  have "set (schedule (Suc 0) ord) = {0}" using schedule_set [of "Suc 0" ord] by auto
  moreover have "distinct (schedule (Suc 0) ord)" by (rule schedule_distinct)
  ultimately show ?thesis
    by (cases "schedule (Suc 0) ord") (auto simp: insert_eq_iff dest: subset_singletonD)
qed

lemma gather_Nil: "gather [] ord st = (Inr [], st)"
  by (simp add: gather_def schedule_0 task_results_def)

lemma gather_single:
  "gather [t] ord st =
     (case t st of (Inl err, st') \<Rightarrow> (Inl err, st') | (Inr v, st') \<Rightarrow> (Inr [v], st'))"
  by (auto simp: gather_def schedule_1 task_results_def split: prod.splits sum.splits)

lemma update_same: "map_of al k = Some v \<Longrightarrow> AList.update k v al = al"
  by (induction al) (auto split: if_splits)

lemma py_range_empty: "maxRange \<noteq> 0 \<Longrightarrow> py_range t t maxRange = Inr []"
  by (simp add: py_range_def range_len_def)

lemma py_range_one:
  assumes "s < t" and "t \<le> s + maxRange"
  shows "py_range s t maxRange = Inr [s]"
proof -
  have m: "0 < maxRange" using assms by linarith
  have "(t - s - 1) div maxRange = 0"
    using assms by (intro div_pos_pos_trivial) auto
  then have "range_len s t maxRange = 1"
    using assms m by (simp add: range_len_def)
  then show ?thesis using m by (simp add: py_range_def)
qed

text \<open>
  C3, as the code has it. The loop is \<open>for start in range(START_MS, END_MS, maxRange)\<close>,
  and a range whose start equals its stop is empty: a window whose start equals its end
  gives no slice, no request is sent and the result is the empty list. A window with
  \<open>start < end \<le> start + maxRange\<close> gives exactly one slice, the window itself, and the
  call is that one request (its answer iterated into a list).
\<close>

theorem split_request_interval_degenerate:
  assumes "map_of params ''startTime'' = Some (PInt s)"
    and "map_of params ''endTime'' = Some (PInt t)"
    and "maxRange \<noteq> 0"
  shows "(s = t \<longrightarrow>
            py_range s t maxRange = Inr []
          \<and> split_request_interval e endpoint maxRange params func ord st
              = (Inr (PList []), st\<lparr>heap := heap st @ [params]\<rparr>)
          \<and> sent (snd (split_request_interval e endpoint maxRange params func ord st)) = sent st)
       \<and> (s < t \<and> t \<le> s + maxRange \<longrightarrow>
            py_range s t maxRange = Inr [s]
          \<and> split_request_interval e endpoint maxRange params None ord st
              = (case request e endpoint (Some params) (st\<lparr>heap := heap st @ [params]\<rparr>) of
                   (Inl err, st') \<Rightarrow> (Inl err, st')
                 | (Inr r, st') \<Rightarrow>
                     (case py_iter r of
                        Inl err \<Rightarrow> (Inl err, st')
                      | Inr xs \<Rightarrow> (Inr (PList xs), st'))))"
proof (intro conjI impI)
  assume "s = t"
  then show "py_range s t maxRange = Inr []" using assms(3) by (simp add: py_range_empty)
  from \<open>s = t\<close> show "split_request_interval e endpoint maxRange params func ord st
              = (Inr (PList []), st\<lparr>heap := heap st @ [params]\<rparr>)"
    using assms by (simp add: split_request_interval_def alloc_def py_range_empty gather_Nil)
  then show "sent (snd (split_request_interval e endpoint maxRange params func ord st)) = sent st"
    by simp
next
  assume one: "s < t \<and> t \<le> s + maxRange"
  then show r: "py_range s t maxRange = Inr [s]" by (simp add: py_range_one)
  let ?st0 = "st\<lparr>heap := heap st @ [params]\<rparr>"
  have m: "min t (s + maxRange) = t" using one by simp
  have h: "heap_set (length (heap st)) ''endTime'' (PInt t)
             (heap_set (length (heap st)) ''startTime'' (PInt s) ?st0) = ?st0"
    using assms(1,2) by (simp add: heap_set_def deref_def update_same)
  have d: "deref ?st0 (length (heap st)) = params" by (simp add: deref_def)
  show "split_request_interval e endpoint maxRange params None ord st
              = (case request e endpoint (Some params) ?st0 of
                   (Inl err, st') \<Rightarrow> (Inl err, st')
                 | (Inr r, st') \<Rightarrow>
                     (case py_iter r of
                        Inl err \<Rightarrow> (Inl err, st')
                      | Inr xs \<Rightarrow> (Inr (PList xs), st')))"
    using assms(1,2)
    by (simp add: split_request_interval_def alloc_def r m h d gather_single
        split: prod.splits sum.splits)
qed

theorem split_request_interval_degenerate_witness:
  "py_range 1000 1000 3000 = Inr []
   \<and> sent (snd (split_request_interval env0 SPOT_TRADES 3000
        [(''startTime'', PInt 1000), (''endTime'', PInt 1000)] None [] st0)) = sent st0
   \<and> py_range 1000 2500 3000 = Inr [1000]
   \<and> split_request_interval env0 KLINES 3000
        [(''startTime'', PInt 1000), (''endTime'', PInt 2500)] None [] st0
      = (Inr (PList []),
         \<lparr>heap = [[(''startTime'', PInt 1000), (''endTime'', PInt 2500)]],
          sent = [\<lparr>rq_method = GET, rq_url = ''/api/v3/klines'',
                   rq_params = [(''startTime'', PInt 1000), (''endTime'', PInt 2500)]\<rparr>]\<rparr>)"
proof -
  have a: "map_of [(''startTime'', PInt 1000), (''endTime'', PInt 1000)] ''startTime'' = Some (PInt 1000)"
    and b: "map_of [(''startTime'', PInt 1000), (''endTime'', PInt 1000)] ''endTime'' = Some (PInt 1000)"
    and c: "map_of [(''startTime'', PInt 1000), (''endTime'', PInt 2500)] ''startTime'' = Some (PInt 1000)"
    and d: "map_of [(''startTime'', PInt 1000), (''endTime'', PInt 2500)] ''endTime'' = Some (PInt 2500)"
    and m: "(3000 :: int) \<noteq> 0"
    by simp_all
  have r: "request env0 KLINES (Some [(''startTime'', PInt 1000), (''endTime'', PInt 2500)])
             (st0\<lparr>heap := heap st0 @ [[(''startTime'', PInt 1000), (''endTime'', PInt 2500)]]\<rparr>)
           = (Inr (PList []),
              \<lparr>heap = [[(''startTime'', PInt 1000), (''endTime'', PInt 2500)]],
               sent = [\<lparr>rq_method = GET, rq_url = ''/api/v3/klines'',
                        rq_params = [(''startTime'', PInt 1000), (''endTime'', PInt 2500)]\<rparr>]\<rparr>)"
    by (simp add: request_def preparePayload_def env0_def st0_def skipped_def)
  show ?thesis
    using split_request_interval_degenerate [OF a b m, of env0 SPOT_TRADES None "[]" st0]
      split_request_interval_degenerate [OF c d m, of env0 KLINES None "[]" st0] r
    by simp
qed

text \<open>
  The claim that such a window gives exactly one slice fails: for the window
  \<open>[1000, 1000]\<close> the range is empty, the splitter sends nothing, and so does
  \<open>spotTrades\<close> with \<open>since = until = 1000\<close>.
\<close>

theorem split_equal_window_no_slice:
  "py_range 1000 1000 3000 = Inr []
   \<and> split_request_interval env0 SPOT_TRADES 3000
        [(''symbol'', PStr ''BTCUSDT''), (''startTime'', PInt 1000), (''endTime'', PInt 1000)]
        None [] st0
      = (Inr (PList []),
         \<lparr>heap = [[(''symbol'', PStr ''BTCUSDT''), (''startTime'', PInt 1000), (''endTime'', PInt 1000)]],
          sent = []\<rparr>)
   \<and> map_option (\<lambda>r. sent (snd r))
        (spotTrades env0 (PStr ''BTCUSDT'') (Some 1000) (Some 1000) PNone PNone (PInt 500) False [] st0)
      = Some []"
  by (simp add: py_range_empty split_request_interval_def alloc_def gather_Nil st0_def
      spotTrades_def timestamp_or_None_def is_alnum_def to_upper_def Let_def)

lemma schedule_length: "length (schedule n ord) = n"
  using distinct_card [OF schedule_distinct [of n ord]] by (simp add: schedule_set)

lemma run_tasks_uniform:
  assumes "\<And>i s. i < length ts \<Longrightarrow> I s \<Longrightarrow> (ts ! i) s = (Inr v, g s) \<and> I (g s)"
    and "set js \<subseteq> {..<length ts}" and "I st"
  shows "run_tasks ts js st = (map (\<lambda>i. (i, Inr v)) js, (g ^^ length js) st)"
  using assms(2,3)
proof (induction js arbitrary: st)
  case Nil
  then show ?case by simp
next
  case (Cons j js)
  from Cons.prems assms(1) [of j st] have step: "(ts ! j) st = (Inr v, g st)" and inv: "I (g st)"
    by auto
  from Cons.prems have "set js \<subseteq> {..<length ts}" by simp
  from Cons.IH [OF this inv] step show ?case
    by (simp add: funpow_swap1)
qed

lemma first_error_uniform: "first_error (map (\<lambda>i. (i, Inr v)) js) = None"
  by (induction js) auto

lemma map_of_uniform:
  "map_of (map (\<lambda>i. (i, Inr v)) js) i = (if i \<in> set js then Some (Inr v) else None)"
  by (induction js) auto

lemma concat_singletons: "concat (map (\<lambda>i. [v]) xs) = replicate (length xs) v"
  by (induction xs) auto

lemma task_results_uniform:
  assumes "set js = {0..<n}"
  shows "task_results n (map (\<lambda>i. (i, Inr v)) js) = replicate n v"
proof -
  have "map (\<lambda>i. case map_of (map (\<lambda>i. (i, Inr v)) js) i of
                    Some (Inr v) \<Rightarrow> [v] | Some (Inl err) \<Rightarrow> [] | None \<Rightarrow> []) [0..<n]
        = map (\<lambda>i. [v]) [0..<n]"
    using assms by (intro map_cong) (auto simp: map_of_uniform)
  then have "task_results n (map (\<lambda>i. (i, Inr v)) js) = concat (map (\<lambda>i. [v]) [0..<n])"
    unfolding task_results_def by (rule arg_cong)
  then show ?thesis
    by (simp only: concat_singletons length_upt) simp
qed

text \<open>Tasks that all give the same value and change the state the same way: the order is immaterial.\<close>

lemma gather_uniform:
  assumes "\<And>i s. i < length ts \<Longrightarrow> I s \<Longrightarrow> (ts ! i) s = (Inr v, g s) \<and> I (g s)"
    and "I st"
  shows "gather ts ord st = (Inr (replicate (length ts) v), (g ^^ length ts) st)"
proof -
  have sub: "set (schedule (length ts) ord) \<subseteq> {..<length ts}"
    by (auto simp: schedule_set)
  show ?thesis
    using run_tasks_uniform [where I = I, OF assms(1) sub assms(2)]
    by (simp add: gather_def first_error_uniform task_results_uniform schedule_set schedule_length)
qed

lemma split_loop_tasks:
  "fst (split_loop f ep a E m starts ts st) =
     ts @ replicate (length starts) (\<lambda>s. f ep (Some (deref s a)) s)"
proof (induction starts arbitrary: ts st)
  case Nil
  then show ?case by simp
next
  case (Cons start starts)
  show ?case
    by (simp add: Let_def Cons.IH replicate_app_Cons_same)
qed

lemma heap_set_record:
  "heap_set a k v \<lparr>heap = h, sent = q\<rparr> =
     \<lparr>heap = h[a := AList.update k v (if a < length h then h ! a else [])], sent = q\<rparr>"
  by (simp add: heap_set_def deref_def)

lemma upt4: "[0..<4] = [0, 1, 2, 3]"
  by (simp add: upt_rec)

lemma window_starts: "py_range 0 10000 3000 = Inr [0, 3000, 6000, 9000]"
  by (simp add: py_range_def range_len_def upt4)

lemma window_loop_state:
  "snd (split_loop f ep 0 10000 3000 [0, 3000, 6000, 9000] [] \<lparr>heap = [window_params], sent = []\<rparr>)
     = \<lparr>heap = [[(''symbol'', PStr ''BTCUSDT''), (''startTime'', PInt 9000), (''endTime'', PInt 10000)]],
        sent = []\<rparr>"
  by (simp add: heap_set_record window_params_def)

lemma last_slice_answer:
  "request env_window SPOT_TRADES
     (Some [(''symbol'', PStr ''BTCUSDT''), (''startTime'', PInt 9000), (''endTime'', PInt 10000)]) s
   = (Inr (PList [PDict [(''from'', PInt 9000)]]), s\<lparr>sent := sent s @ [last_slice_request]\<rparr>)"
  by (simp add: request_def preparePayload_def sign_def env_window_def env0_def skipped_def
      RECV_WINDOW_def str_int_def digits.simps digit_char_def last_slice_request_def)

text \<open>
  C2 on the code. The window \<open>[0, 10000]\<close> with \<open>maxRange = 3000\<close> makes the loop run for
  the starts 0, 3000, 6000 and 9000, but the four tasks share the one \<open>payload\<close> dict and
  read it only when \<open>gather\<close> runs them, after the last turn of the loop has written
  \<open>startTime = 9000\<close> and \<open>endTime = 10000\<close> into it. With a server that answers one
  item naming the \<open>startTime\<close> it was asked for, and for every order of the tasks: the
  four requests sent are the same request, for the slice \<open>[9000, 10000]\<close>, and the
  result is four copies of that slice's answer.
\<close>

theorem split_example_last_slice:
  "split_request_interval env_window SPOT_TRADES 3000 window_params None ord st0 =
     (Inr (PList [PDict [(''from'', PInt 9000)], PDict [(''from'', PInt 9000)],
                  PDict [(''from'', PInt 9000)], PDict [(''from'', PInt 9000)]]),
      \<lparr>heap = [[(''symbol'', PStr ''BTCUSDT''), (''startTime'', PInt 9000), (''endTime'', PInt 10000)]],
       sent = [last_slice_request, last_slice_request, last_slice_request, last_slice_request]\<rparr>)"
proof -
  let ?H = "[[(''symbol'', PStr ''BTCUSDT''), (''startTime'', PInt 9000), (''endTime'', PInt 10000)]]"
  let ?st1 = "\<lparr>heap = ?H, sent = []\<rparr>"
  let ?task = "\<lambda>s. request env_window SPOT_TRADES (Some (deref s 0)) s"
  let ?g = "\<lambda>s. s\<lparr>sent := sent s @ [last_slice_request]\<rparr>"
  have loop: "split_loop (request env_window) SPOT_TRADES 0 10000 3000 [0, 3000, 6000, 9000] []
                \<lparr>heap = [window_params], sent = []\<rparr> = (replicate 4 ?task, ?st1)"
    using split_loop_tasks [of "request env_window" SPOT_TRADES 0 10000 3000 "[0, 3000, 6000, 9000]"
        "[]" "\<lparr>heap = [window_params], sent = []\<rparr>"]
      window_loop_state [of "request env_window" SPOT_TRADES]
    by (intro prod_eqI) (simp_all only: fst_conv snd_conv append_Nil, simp_all add: numeral_eq_Suc)
  have g: "gather (replicate 4 ?task) ord ?st1 =
             (Inr (replicate (length (replicate 4 ?task)) (PList [PDict [(''from'', PInt 9000)]])),
              (?g ^^ length (replicate 4 ?task)) ?st1)"
  proof (rule gather_uniform [where I = "\<lambda>s. heap s = ?H"])
    fix i and s :: state
    assume "i < length (replicate 4 ?task)" and "heap s = ?H"
    then show "(replicate 4 ?task ! i) s = (Inr (PList [PDict [(''from'', PInt 9000)]]), ?g s)
                 \<and> heap (?g s) = ?H"
      by (simp add: deref_def last_slice_answer)
  qed simp
  have g': "gather (replicate 4 ?task) ord ?st1 =
      (Inr [PList [PDict [(''from'', PInt 9000)]], PList [PDict [(''from'', PInt 9000)]],
            PList [PDict [(''from'', PInt 9000)]], PList [PDict [(''from'', PInt 9000)]]],
       \<lparr>heap = ?H, sent = [last_slice_request, last_slice_request, last_slice_request,
                            last_slice_request]\<rparr>)"
    unfolding g by (simp add: numeral_eq_Suc)
  have keys: "map_of window_params ''startTime'' = Some (PInt 0)"
    "map_of window_params ''endTime'' = Some (PInt 10000)"
    by (simp_all add: window_params_def)
  have a: "alloc window_params st0 = (0, \<lparr>heap = [window_params], sent = []\<rparr>)"
    by (simp add: alloc_def st0_def)
  show ?thesis
    by (simp add: split_request_interval_def keys a window_starts loop g' Let_def
        del: split_loop.simps)
qed

section \<open>The page fan-out\<close>

lemma page_loop_tasks:
  "fst (page_loop e ep a pageKey xs ts st) =
     ts @ replicate (length xs) (\<lambda>s. request e ep (Some (deref s a)) s)"
proof (induction xs arbitrary: ts st)
  case Nil
  then show ?case by simp
next
  case (Cons x xs)
  show ?case
    by (simp add: Let_def Cons.IH replicate_app_Cons_same)
qed

lemma heap_incr_record:
  "heap_incr a k \<lparr>heap = h, sent = q\<rparr> =
     (case map_of (if a < length h then h ! a else []) k of
        Some (PInt n) \<Rightarrow> heap_set a k (PInt (n + 1)) \<lparr>heap = h, sent = q\<rparr>
      | Some (PBool b) \<Rightarrow> heap_set a k (PInt ((if b then 1 else 0) + 1)) \<lparr>heap = h, sent = q\<rparr>
      | _ \<Rightarrow> \<lparr>heap = h, sent = q\<rparr>)"
  by (simp add: heap_incr_def deref_def)

lemma upt5: "[0..<5] = [0, 1, 2, 3, 4]"
  by (simp add: upt_rec)

lemma pages_95: "py_range 20 (95 + 1) 20 = Inr [20, 40, 60, 80]"
  by (simp add: py_range_def range_len_def upt4)

lemma pages_100: "py_range 20 (100 + 1) 20 = Inr [20, 40, 60, 80, 100]"
  by (simp add: py_range_def range_len_def upt5)

lemma page_answer:
  "request env_pages FIAT_ORDERS (Some (fiat_params @ [(''page'', PInt p)])) s
   = (Inr (PDict [(''data'', PList [PInt p]), (''total'', PInt 95)]),
      s\<lparr>sent := sent s @ [page_request p]\<rparr>)"
  by (simp add: request_def preparePayload_def sign_def env_pages_def env0_def skipped_def
      RECV_WINDOW_def str_int_def digits.simps digit_char_def page_request_def fiat_params_def)

lemma page_loop_state:
  "snd (page_loop e ep 0 ''page'' [20, 40, 60, 80] []
          \<lparr>heap = [fiat_params @ [(''page'', PInt 1)]], sent = q\<rparr>)
     = \<lparr>heap = [fiat_params @ [(''page'', PInt 5)]], sent = q\<rparr>"
  by (simp add: heap_incr_record heap_set_record fiat_params_def)

text \<open>
  C4 on the code. With \<open>rows = 20\<close> and a server that declares \<open>total = 95\<close>, the first
  request asks for page 1 and the loop runs for 20, 40, 60 and 80, adding one to
  \<open>payload["page"]\<close> each time; the four tasks share that one dict and read it only when
  \<open>gather\<close> runs them, when it holds \<open>page = 5\<close>. With a server that answers the page
  number it was asked for as its one item, and for every order of the tasks: the
  requests sent are for the pages 1, 5, 5, 5, 5, and the result is page 1's item
  followed by four copies of page 5's. Apart from that, the loop runs once for every
  multiple of \<open>rows\<close> up to \<open>total\<close>: with \<open>total = 100\<close> that is five further pages,
  one more than the five pages that hold 100 items need.
\<close>

theorem paginatedRequests_example_last_page:
  "paginatedRequests env_pages FIAT_ORDERS (Some fiat_params) ''rows'' ''page'' ''data'' ''total'' ord st0
     = (Inr (PList [PInt 1, PInt 5, PInt 5, PInt 5, PInt 5]),
        \<lparr>heap = [fiat_params @ [(''page'', PInt 5)]],
         sent = [page_request 1, page_request 5, page_request 5, page_request 5, page_request 5]\<rparr>)
   \<and> py_range 20 (100 + 1) 20 = Inr [20, 40, 60, 80, 100]"
proof -
  let ?H = "[fiat_params @ [(''page'', PInt 5)]]"
  let ?st2 = "\<lparr>heap = [fiat_params @ [(''page'', PInt 1)]], sent = [page_request 1]\<rparr>"
  let ?st3 = "\<lparr>heap = ?H, sent = [page_request 1]\<rparr>"
  let ?task = "\<lambda>s. request env_pages FIAT_ORDERS (Some (deref s 0)) s"
  let ?g = "\<lambda>s. s\<lparr>sent := sent s @ [page_request 5]\<rparr>"
  let ?v = "PDict [(''data'', PList [PInt 5]), (''total'', PInt 95)]"
  have a: "alloc fiat_params st0 = (0, \<lparr>heap = [fiat_params], sent = []\<rparr>)"
    by (simp add: alloc_def st0_def)
  have rows: "map_of fiat_params ''rows'' = Some (PInt 20)"
    by (simp add: fiat_params_def)
  have h1: "heap_set 0 ''page'' (PInt 1) \<lparr>heap = [fiat_params], sent = []\<rparr>
              = \<lparr>heap = [fiat_params @ [(''page'', PInt 1)]], sent = []\<rparr>"
    by (simp add: heap_set_record fiat_params_def)
  have d1: "deref \<lparr>heap = [fiat_params @ [(''page'', PInt 1)]], sent = []\<rparr> 0
              = fiat_params @ [(''page'', PInt 1)]"
    by (simp add: deref_def)
  have r1: "request env_pages FIAT_ORDERS (Some (fiat_params @ [(''page'', PInt 1)]))
              \<lparr>heap = [fiat_params @ [(''page'', PInt 1)]], sent = []\<rparr>
            = (Inr (PDict [(''data'', PList [PInt 1]), (''total'', PInt 95)]), ?st2)"
    by (simp add: page_answer)
  have loop: "page_loop env_pages FIAT_ORDERS 0 ''page'' [20, 40, 60, 80] [] ?st2
                = (replicate 4 ?task, ?st3)"
    using page_loop_tasks [of env_pages FIAT_ORDERS 0 "''page''" "[20, 40, 60, 80]" "[]" ?st2]
      page_loop_state [of env_pages FIAT_ORDERS "[page_request 1]"]
    by (intro prod_eqI) (simp_all only: fst_conv snd_conv append_Nil, simp_all add: numeral_eq_Suc)
  have g: "gather (replicate 4 ?task) ord ?st3 =
             (Inr (replicate (length (replicate 4 ?task)) ?v), (?g ^^ length (replicate 4 ?task)) ?st3)"
  proof (rule gather_uniform [where I = "\<lambda>s. heap s = ?H"])
    fix i and s :: state
    assume "i < length (replicate 4 ?task)" and "heap s = ?H"
    then show "(replicate 4 ?task ! i) s = (Inr ?v, ?g s) \<and> heap (?g s) = ?H"
      by (simp add: deref_def page_answer)
  qed simp
  have g': "gather (replicate 4 ?task) ord ?st3 =
      (Inr [?v, ?v, ?v, ?v],
       \<lparr>heap = ?H,
        sent = [page_request 1, page_request 5, page_request 5, page_request 5, page_request 5]\<rparr>)"
    unfolding g by (simp add: numeral_eq_Suc)
  have "paginatedRequests env_pages FIAT_ORDERS (Some fiat_params) ''rows'' ''page'' ''data'' ''total''
          ord st0
     = (Inr (PList [PInt 1, PInt 5, PInt 5, PInt 5, PInt 5]),
        \<lparr>heap = ?H,
         sent = [page_request 1, page_request 5, page_request 5, page_request 5, page_request 5]\<rparr>)"
    using pages_95
    by (simp add: paginatedRequests_def a rows h1 d1 r1 loop g' Let_def del: page_loop.simps)
  then show ?thesis using pages_100 by simp
qed

section \<open>What \<open>gather\<close> returns\<close>

lemma run_tasks_inv:
  assumes pres: "\<And>i s r s'. i < length ts \<Longrightarrow> I s \<Longrightarrow> (ts ! i) s = (r, s') \<Longrightarrow> I s'"
    and "set js \<subseteq> {..<length ts}" and "I st" and "run_tasks ts js st = (fin, st')"
  shows "map fst fin = js \<and> I st' \<and> (\<forall>ir \<in> set fin. \<exists>s s'. I s \<and> (ts ! fst ir) s = (snd ir, s'))"
  using assms(2-)
proof (induction js arbitrary: st fin st')
  case Nil
  then show ?case by simp
next
  case (Cons j js)
  obtain r s1 where step: "(ts ! j) st = (r, s1)" by (cases "(ts ! j) st")
  obtain rs s2 where rest: "run_tasks ts js s1 = (rs, s2)" by (cases "run_tasks ts js s1")
  from Cons.prems(3) step rest have fin: "fin = (j, r) # rs" and st': "st' = s2" by simp_all
  from Cons.prems(1) have j: "j < length ts" and js: "set js \<subseteq> {..<length ts}" by simp_all
  from pres [OF j Cons.prems(2) step] have I1: "I s1" .
  from Cons.IH [OF js I1 rest]
  have IH: "map fst rs = js \<and> I s2 \<and> (\<forall>ir \<in> set rs. \<exists>s s'. I s \<and> (ts ! fst ir) s = (snd ir, s'))" .
  show ?case
    using IH Cons.prems(2) step by (auto simp: fin st')
qed

lemma first_error_None: "first_error fin = None \<Longrightarrow> ir \<in> set fin \<Longrightarrow> \<exists>v. snd ir = Inr v"
  by (induction fin) (auto split: sum.splits)


lemma concat_single_map: "concat (map (\<lambda>i. [f i]) xs) = map f xs"
  by (induction xs) auto

lemma task_results_nth:
  assumes d: "distinct (map fst fin)" and s: "set (map fst fin) = {0..<n}"
    and ok: "first_error fin = None"
  shows "length (task_results n fin) = n \<and> (\<forall>i<n. (i, Inr (task_results n fin ! i)) \<in> set fin)"
proof -
  define g where "g = (\<lambda>i. projr (the (map_of fin i)))"
  have each: "map_of fin i = Some (Inr (g i)) \<and> (i, Inr (g i)) \<in> set fin" if "i < n" for i
  proof -
    from that s have "i \<in> fst ` set fin" by auto
    then obtain r where r: "(i, r) \<in> set fin" by auto
    with d have m: "map_of fin i = Some r" by simp
    from first_error_None [OF ok r] obtain v where "r = Inr v" by auto
    with m r show ?thesis by (simp add: g_def)
  qed
  have "map (\<lambda>i. case map_of fin i of Some (Inr v) \<Rightarrow> [v] | Some (Inl err) \<Rightarrow> [] | None \<Rightarrow> []) [0..<n]
        = map (\<lambda>i. [g i]) [0..<n]"
  proof (intro map_cong refl)
    fix i assume "i \<in> set [0..<n]"
    then have "i < n" by simp
    from each [OF this] have "map_of fin i = Some (Inr (g i))" ..
    then show "(case map_of fin i of Some (Inr v) \<Rightarrow> [v] | Some (Inl err) \<Rightarrow> [] | None \<Rightarrow> []) = [g i]"
      by simp
  qed
  then have "task_results n fin = concat (map (\<lambda>i. [g i]) [0..<n])"
    unfolding task_results_def by (rule arg_cong)
  then have eq: "task_results n fin = map g [0..<n]"
    by (simp only: concat_single_map)
  have "(i, Inr (task_results n fin ! i)) \<in> set fin" if "i < n" for i
    using each [OF that] that by (simp add: eq)
  then show ?thesis
    by (simp add: eq)
qed

text \<open>
  When \<open>gather\<close> returns, every task has returned, and the list holds, at each task's
  position, what that task returned in the state in which it ran; when it raises, the
  exception is one that a task raised. \<open>I\<close> is any property of the state that the
  tasks keep.
\<close>

lemma gather_Inr:
  assumes pres: "\<And>i s r s'. i < length ts \<Longrightarrow> I s \<Longrightarrow> (ts ! i) s = (r, s') \<Longrightarrow> I s'"
    and "I st" and g: "gather ts ord st = (Inr rs, st')"
  shows "length rs = length ts \<and> I st'
       \<and> (\<forall>i<length ts. \<exists>s s'. I s \<and> (ts ! i) s = (Inr (rs ! i), s'))"
proof -
  obtain fin s1 where run: "run_tasks ts (schedule (length ts) ord) st = (fin, s1)"
    by (cases "run_tasks ts (schedule (length ts) ord) st")
  have sub: "set (schedule (length ts) ord) \<subseteq> {..<length ts}" by (auto simp: schedule_set)
  from run_tasks_inv [where I = I, OF pres sub assms(2) run]
  have m: "map fst fin = schedule (length ts) ord" and I1: "I s1"
    and each: "\<forall>ir \<in> set fin. \<exists>s s'. I s \<and> (ts ! fst ir) s = (snd ir, s')"
    by auto
  from g run have ok: "first_error fin = None" and rs: "rs = task_results (length ts) fin"
    and st': "st' = s1"
    by (auto simp: gather_def split: option.splits)
  have "distinct (map fst fin)" "set (map fst fin) = {0..<length ts}"
    by (simp_all add: m schedule_distinct schedule_set)
  from task_results_nth [OF this ok]
  have len: "length rs = length ts" and mem: "\<forall>i<length ts. (i, Inr (rs ! i)) \<in> set fin"
    by (simp_all add: rs)
  have "\<exists>s s'. I s \<and> (ts ! i) s = (Inr (rs ! i), s')" if "i < length ts" for i
    using mem each that by fastforce
  with len I1 show ?thesis by (simp add: st')
qed


section \<open>What \<open>klines\<close> returns\<close>

lemma baseKlines_heap: "baseKlines e flt params st = (r, st') \<Longrightarrow> heap st' = heap st"
  by (auto simp: baseKlines_def split: prod.splits sum.splits dest: request_heap)

lemma klines_loop_result:
  "klines_loop e flt symb timeframe timezone limit END_MS STEP starts tasks st =
     (tasks @ map (\<lambda>i s. baseKlines e flt (deref s (length (heap st) + i)) s) [0..<length starts],
      st\<lparr>heap := heap st @
           map (\<lambda>start. [(''symbol'', symb), (''interval'', timeframe), (''startTime'', PInt start),
                           (''endTime'', PInt (min END_MS (start + STEP))), (''timeZone'', timezone),
                           (''limit'', PInt limit)]) starts\<rparr>)"
proof (induction starts arbitrary: tasks st)
  case Nil
  then show ?case by simp
next
  case (Cons start starts)
  show ?case
    by (simp add: alloc_def Cons.IH map_upt_Suc del: upt_Suc)
qed

text \<open>
  C10. When \<open>klines\<close> returns, the value is the list that \<open>gather\<close> gave: it has
  exactly one element for each start of \<open>range(START_MS, END_MS + BASE_STEP, STEP + BASE_STEP)\<close>,
  and the element at a slice's position is the list of klines that \<open>_baseKlines\<close>
  returned for that slice's parameters (from its start to \<open>min(END_MS, start + STEP)\<close>).
  The lists of the slices are not joined: the result is a list of lists of klines.
\<close>

theorem klines_one_list_per_slice:
  assumes "klines e flt symbol timeframe since until timezone limit ord st = (Inr result, st')"
  shows "\<exists>symb BASE_STEP END_MS starts.
           prepareSymbol symbol = Inr symb
         \<and> timeInterval timeframe = Inr BASE_STEP
         \<and> parseTime e since until st = (since, END_MS)
         \<and> py_range since (END_MS + BASE_STEP) (BASE_STEP * limit + BASE_STEP) = Inr starts
         \<and> length result = length starts
         \<and> (\<forall>i<length starts. \<exists>s s'.
               baseKlines e flt
                 [(''symbol'', symb), (''interval'', timeframe), (''startTime'', PInt (starts ! i)),
                  (''endTime'', PInt (min END_MS (starts ! i + BASE_STEP * limit))),
                  (''timeZone'', timezone), (''limit'', PInt limit)] s
               = (Inr (result ! i), s'))"
proof -
  let ?dict = "\<lambda>symb END_MS STEP start.
     [(''symbol'', symb), (''interval'', timeframe), (''startTime'', PInt start),
      (''endTime'', PInt (min END_MS (start + STEP))), (''timeZone'', timezone),
      (''limit'', PInt limit)]"
  obtain symb where ps: "prepareSymbol symbol = Inr symb"
    using assms by (cases "prepareSymbol symbol") (auto simp: klines_def)
  obtain END_MS where pt: "parseTime e since until st = (since, END_MS)"
    by (simp add: parseTime_def)
  obtain BASE_STEP where ti: "timeInterval timeframe = Inr BASE_STEP"
    using assms ps pt by (cases "timeInterval timeframe") (auto simp: klines_def)
  obtain starts where pr:
    "py_range since (END_MS + BASE_STEP) (BASE_STEP * limit + BASE_STEP) = Inr starts"
    using assms ps pt ti
    by (cases "py_range since (END_MS + BASE_STEP) (BASE_STEP * limit + BASE_STEP)")
      (auto simp: klines_def Let_def)
  let ?H = "heap st @ map (?dict symb END_MS (BASE_STEP * limit)) starts"
  let ?tasks = "map (\<lambda>i s. baseKlines e flt (deref s (length (heap st) + i)) s) [0..<length starts]"
  have g: "gather ?tasks ord (st\<lparr>heap := ?H\<rparr>) = (Inr result, st')"
    using assms ps pt ti pr by (simp add: klines_def Let_def klines_loop_result)
  have "length result = length ?tasks \<and> heap st' = ?H
        \<and> (\<forall>i<length ?tasks. \<exists>s s'. heap s = ?H \<and> (?tasks ! i) s = (Inr (result ! i), s'))"
  proof (rule gather_Inr [where I = "\<lambda>s. heap s = ?H" and st = "st\<lparr>heap := ?H\<rparr>" and ord = ord])
    fix i and s :: state and r s'
    assume "i < length ?tasks" and "heap s = ?H" and "(?tasks ! i) s = (r, s')"
    then show "heap s' = ?H"
      using baseKlines_heap [of e flt "deref s (length (heap st) + i)" s r s'] by simp
  next
    show "heap (st\<lparr>heap := ?H\<rparr>) = ?H" by simp
  next
    show "gather ?tasks ord (st\<lparr>heap := ?H\<rparr>) = (Inr result, st')" by (rule g)
  qed
  then have len: "length result = length starts"
    and each: "\<forall>i<length starts. \<exists>s s'. heap s = ?H \<and> (?tasks ! i) s = (Inr (result ! i), s')"
    by simp_all
  have "\<exists>s s'. baseKlines e flt (?dict symb END_MS (BASE_STEP * limit) (starts ! i)) s
                = (Inr (result ! i), s')" if "i < length starts" for i
  proof -
    from each that obtain s s' where h: "heap s = ?H"
      and t: "(?tasks ! i) s = (Inr (result ! i), s')"
      by blast
    from t that have t': "baseKlines e flt (deref s (length (heap st) + i)) s = (Inr (result ! i), s')"
      by simp
    from h that have "deref s (length (heap st) + i) = ?dict symb END_MS (BASE_STEP * limit) (starts ! i)"
      by (simp add: deref_def nth_append)
    with t' show ?thesis by auto
  qed
  with ps pt ti pr len show ?thesis by blast
qed

lemma upt2: "[0..<2] = [0, 1]"
  by (simp add: upt_rec)

lemma gather_pair:
  assumes "t0 st = (Inr v0, s1)" and "t1 s1 = (Inr v1, s2)"
  shows "gather [t0, t1] [] st = (Inr [v0, v1], s2)"
  using assms by (simp add: gather_def schedule_def task_results_def upt2)

lemma klines_answer:
  "baseKlines env_klines float_literal (kline_dict t u) s
     = (Inr (kline_pair t), s\<lparr>sent := sent s @ [kline_request t u]\<rparr>)"
  by (simp add: baseKlines_def request_def preparePayload_def env_klines_def env0_def skipped_def
      kline_dict_def kline_request_def kline_pair_def stringField_def float_literal_def)

lemma interval_1m: "timeInterval (PStr ''1m'') = Inr 60000"
  by (simp add: is_digit_def is_letter_def TIME_INTERVAL_def to_lower_SHDW_def int_of_digits_def
      digit_value_def)

lemma symbol_example: "prepareSymbol (PStr ''BTC/USDT'') = Inr (PStr ''BTCUSDT'')"
  by (simp add: is_alnum_def to_upper_def)

lemma klines_starts: "py_range 0 (120000 + 60000) (60000 * 1 + 60000) = Inr [0, 120000]"
  by (simp add: py_range_def range_len_def upt2)

lemma klines_example:
  "klines env_klines float_literal (PStr ''BTC/USDT'') (PStr ''1m'') 0 (Some 120000) (PStr ''0'') 1 [] st0
     = (Inr [kline_pair 0, kline_pair 120000],
        \<lparr>heap = [kline_dict 0 60000, kline_dict 120000 120000],
         sent = [kline_request 0 60000, kline_request 120000 120000]\<rparr>)"
proof -
  let ?st1 = "\<lparr>heap = [kline_dict 0 60000, kline_dict 120000 120000], sent = []\<rparr>"
  let ?t0 = "\<lambda>s. baseKlines env_klines float_literal (deref s 0) s"
  let ?t1 = "\<lambda>s. baseKlines env_klines float_literal (deref s (Suc 0)) s"
  have loop: "klines_loop env_klines float_literal (PStr ''BTCUSDT'') (PStr ''1m'') (PStr ''0'') 1
                120000 60000 [0, 120000] [] st0 = ([?t0, ?t1], ?st1)"
    by (simp add: klines_loop_result st0_def upt2 kline_dict_def del: klines_loop.simps)
  have g: "gather [?t0, ?t1] [] ?st1 =
             (Inr [kline_pair 0, kline_pair 120000],
              \<lparr>heap = [kline_dict 0 60000, kline_dict 120000 120000],
               sent = [kline_request 0 60000, kline_request 120000 120000]\<rparr>)"
  proof (rule gather_pair)
    show "?t0 ?st1 = (Inr (kline_pair 0),
            \<lparr>heap = [kline_dict 0 60000, kline_dict 120000 120000], sent = [kline_request 0 60000]\<rparr>)"
      by (simp add: deref_def klines_answer)
    show "?t1 \<lparr>heap = [kline_dict 0 60000, kline_dict 120000 120000], sent = [kline_request 0 60000]\<rparr>
            = (Inr (kline_pair 120000),
               \<lparr>heap = [kline_dict 0 60000, kline_dict 120000 120000],
                sent = [kline_request 0 60000, kline_request 120000 120000]\<rparr>)"
      by (simp add: deref_def klines_answer)
  qed
  show ?thesis
    using klines_starts
    by (simp add: klines_def symbol_example parseTime_def interval_1m Let_def loop g
        del: klines_loop.simps prepareSymbol.simps timeInterval.simps)
qed

theorem klines_one_list_per_slice_witness:
  "klines env_klines float_literal (PStr ''BTC/USDT'') (PStr ''1m'') 0 (Some 120000) (PStr ''0'') 1 [] st0
     = (Inr [[[KField (PInt 0), KFloat ''1.5''], [KField (PInt 60000), KFloat ''2.5'']],
             [[KField (PInt 120000), KFloat ''1.5''], [KField (PInt 180000), KFloat ''2.5'']]],
        \<lparr>heap = [kline_dict 0 60000, kline_dict 120000 120000],
         sent = [kline_request 0 60000, kline_request 120000 120000]\<rparr>)
   \<and> (\<exists>symb BASE_STEP END_MS starts.
           prepareSymbol (PStr ''BTC/USDT'') = Inr symb
         \<and> timeInterval (PStr ''1m'') = Inr BASE_STEP
         \<and> parseTime env_klines 0 (Some 120000) st0 = (0, END_MS)
         \<and> py_range 0 (END_MS + BASE_STEP) (BASE_STEP * 1 + BASE_STEP) = Inr starts
         \<and> length [kline_pair 0, kline_pair 120000] = length starts)"
proof -
  from klines_one_list_per_slice [OF klines_example]
  have "\<exists>symb BASE_STEP END_MS starts.
           prepareSymbol (PStr ''BTC/USDT'') = Inr symb
         \<and> timeInterval (PStr ''1m'') = Inr BASE_STEP
         \<and> parseTime env_klines 0 (Some 120000) st0 = (0, END_MS)
         \<and> py_range 0 (END_MS + BASE_STEP) (BASE_STEP * 1 + BASE_STEP) = Inr starts
         \<and> length [kline_pair 0, kline_pair 120000] = length starts"
    by blast
  moreover have "klines env_klines float_literal (PStr ''BTC/USDT'') (PStr ''1m'') 0 (Some 120000)
      (PStr ''0'') 1 [] st0
     = (Inr [[[KField (PInt 0), KFloat ''1.5''], [KField (PInt 60000), KFloat ''2.5'']],
             [[KField (PInt 120000), KFloat ''1.5''], [KField (PInt 180000), KFloat ''2.5'']]],
        \<lparr>heap = [kline_dict 0 60000, kline_dict 120000 120000],
         sent = [kline_request 0 60000, kline_request 120000 120000]\<rparr>)"
    using klines_example by (simp add: kline_pair_def)
  ultimately show ?thesis by blast
qed

section \<open>The status code and the failures of a request\<close>





























end
